theory Spec2Isabelle
  imports Complex_Main
begin

section \<open>Binaural Dreamscapes: the tone generator of app.py\<close>

text \<open>
  The program keeps its tone parameters in module-level variables, written by the
  handlers of the control surface and read by the audio callback. The model below
  follows app.py function by function.

  Conventions of the embedding.
  \<^item> Python floats are modelled as real numbers, so \<open>sin\<close> and \<open>pi\<close> are the
    mathematical ones and no rounding takes place. The one place where rounding decides
    a result, the remainder of line 148, is modelled in double precision as well
    (\<open>audio_callback_double\<close>).
  \<^item> A module-level parameter holds either a float or \<open>None\<close> (the value sqlite3
    returns for a NULL column); arithmetic and formatting on \<open>None\<close> raise TypeError.
  \<^item> An exception is the first component of a handler's result; the second is the
    module state at the moment the handler returns or raises.
  \<^item> Widget calls are recorded, in order, as a list of \<open>ui_call\<close>. A call that
    changes the module state is modelled with its effect: \<open>slider.set\<close> of a ttk scale
    clips the value to the slider's range and runs the slider's command before it
    returns, and the command is one of the handlers below. tkinter reports an exception
    raised inside such a command instead of raising it in the caller of \<open>set\<close>.
    Purely cosmetic calls (axis labels, grid, colours) are left out of the record.
\<close>

subsection \<open>Values, errors and module state\<close>

datatype pyval = PyFloat real | PyNone

datatype error = ValueError | TypeError | PortAudioError | RecursionError

text \<open>
  The module-level variables of app.py (lines 28 to 35). \<open>stream\<close> is \<open>None\<close> or an
  output stream, represented by its \<open>active\<close> flag. \<open>volume_value_label\<close> is \<open>None\<close>
  (False) until the label widget is created. \<open>initial_globals\<close> is the state in which
  the main loop starts: the initial values of lines 28 to 34, the label created.
\<close>

record globals =
  volume :: pyval
  frequency_left :: pyval
  frequency_right :: pyval
  sampling_rate :: int
  stream :: "bool option"
  phase_left :: pyval
  phase_right :: pyval
  volume_value_label :: bool

definition initial_globals :: globals where
  "initial_globals =
     \<lparr> volume = PyFloat (2 / 10), frequency_left = PyFloat 100, frequency_right = PyFloat 104,
       sampling_rate = 44100, stream = None, phase_left = PyFloat 0, phase_right = PyFloat 0,
       volume_value_label = True \<rparr>"

subsection \<open>Numeric helpers\<close>

text \<open>
  The remainder \<open>%\<close> of Python and numpy on floats: the result takes the sign of the
  divisor. For a zero divisor numpy yields nan, which the model does not represent; every
  statement below that depends on the remainder assumes a positive sampling rate.
\<close>

definition py_mod :: "real \<Rightarrow> real \<Rightarrow> real" where
  "py_mod x y = x - y * of_int \<lfloor>x / y\<rfloor>"

text \<open>Python's \<open>int(x)\<close> on a float truncates towards zero.\<close>

definition py_int :: "real \<Rightarrow> int" where
  "py_int x = (if 0 \<le> x then \<lfloor>x\<rfloor> else \<lceil>x\<rceil>)"

text \<open>
  Assignment to one column of the two-column output buffer, \<open>outdata[:, 0] = w\<close> and
  \<open>outdata[:, 1] = w\<close>, for a \<open>w\<close> with one value per row.
\<close>

definition set_column0 :: "(real \<times> real) list \<Rightarrow> real list \<Rightarrow> (real \<times> real) list" where
  "set_column0 outdata w = map2 (\<lambda>(l, r) x. (x, r)) outdata w"

definition set_column1 :: "(real \<times> real) list \<Rightarrow> real list \<Rightarrow> (real \<times> real) list" where
  "set_column1 outdata w = map2 (\<lambda>(l, r) x. (l, x)) outdata w"

subsection \<open>The audio callback\<close>

text \<open>
  \<open>audio_callback(outdata, frames, time, status)\<close>, lines 142 to 160. \<open>frames\<close> is the
  number of rows of \<open>outdata\<close>, \<open>time.outputBufferDacTime\<close> is the second argument and
  \<open>status\<close> is not read. The statements run in the source's order: the sample times,
  the two phases in radians, the left column, the right column. A parameter that is
  \<open>None\<close> raises TypeError at the first expression that uses it, so a \<open>None\<close> right
  frequency raises after the left column has been written. Every float operation is
  exact here; \<open>audio_callback_double\<close> below has the same statements with the sample
  times rounded as the program rounds them.
\<close>

definition audio_callback ::
  "(real \<times> real) list \<Rightarrow> real \<Rightarrow> globals \<Rightarrow> error option \<times> (real \<times> real) list" where
  "audio_callback outdata outputBufferDacTime g =
    (let frames = length outdata;
         sr = real_of_int (sampling_rate g);
         t = map (\<lambda>i. py_mod (real i + outputBufferDacTime * sr) sr) [0..<frames]
     in case phase_left g of
          PyNone \<Rightarrow> (Some TypeError, outdata)
        | PyFloat pl \<Rightarrow>
       (case phase_right g of
          PyNone \<Rightarrow> (Some TypeError, outdata)
        | PyFloat pr \<Rightarrow>
       (case volume g of
          PyNone \<Rightarrow> (Some TypeError, outdata)
        | PyFloat v \<Rightarrow>
       (case frequency_left g of
          PyNone \<Rightarrow> (Some TypeError, outdata)
        | PyFloat fl \<Rightarrow>
       (let out0 = set_column0 outdata
                     (map (\<lambda>x. v * 0.5 * sin (2 * pi * fl * x / sr + pl * pi / 180)) t)
        in case frequency_right g of
             PyNone \<Rightarrow> (Some TypeError, out0)
           | PyFloat fr \<Rightarrow>
               (None, set_column1 out0
                        (map (\<lambda>x. v * 0.5 * sin (2 * pi * fr * x / sr + pr * pi / 180)) t)))))))"

text \<open>All five tone parameters hold a float.\<close>

definition numeric_params :: "globals \<Rightarrow> bool" where
  "numeric_params g =
     (volume g \<noteq> PyNone \<and> frequency_left g \<noteq> PyNone \<and> frequency_right g \<noteq> PyNone \<and>
      phase_left g \<noteq> PyNone \<and> phase_right g \<noteq> PyNone)"

subsection \<open>The sample times in double precision\<close>

text \<open>
  Line 148 decides where the remainder wraps, and there a rounding error of the last
  binary digit moves the sample time by a whole period. Its three operations are therefore
  also modelled as numpy evaluates them on 64-bit floats: the product
  \<open>time.outputBufferDacTime * sampling_rate\<close>, the sum with each row index and the
  remainder, each rounded to the nearest double, ties to the even significand.

  \<open>double_round\<close> is that rounding: 53 significant bits, the spacing of the subnormal
  numbers below \<open>2 powi (- 1022)\<close>. Overflow beyond the largest double is not
  represented. Row indices and the sampling rate are integers below \<open>2 ^ 53\<close> in the
  program and convert without rounding.
\<close>

definition nearest_even :: "real \<Rightarrow> int" where
  "nearest_even y =
     (let f = \<lfloor>y\<rfloor>
      in if y - of_int f < 1 / 2 then f
         else if 1 / 2 < y - of_int f then f + 1
         else if even f then f else f + 1)"

definition double_round :: "real \<Rightarrow> real" where
  "double_round x =
     (if x = 0 then 0
      else (let e = max (\<lfloor>log 2 \<bar>x\<bar>\<rfloor> - 52) (- 1074)
            in of_int (nearest_even (x / 2 powi e)) * 2 powi e))"

definition double_sample_time :: "nat \<Rightarrow> real \<Rightarrow> real \<Rightarrow> real" where
  "double_sample_time i outputBufferDacTime sr =
     double_round (py_mod (double_round (real i + double_round (outputBufferDacTime * sr))) sr)"

definition double_sample_times :: "nat \<Rightarrow> real \<Rightarrow> real \<Rightarrow> real list" where
  "double_sample_times frames outputBufferDacTime sr =
     map (\<lambda>i. double_sample_time i outputBufferDacTime sr) [0..<frames]"

text \<open>
  Lines 149 to 160 for given sample times \<open>t\<close>, in the order and with the failures of
  \<open>audio_callback\<close>; \<open>audio_callback\<close> is \<open>write_channels\<close> at the exact sample
  times (lemma \<open>audio_callback_write_channels\<close>).
\<close>

definition write_channels ::
  "real list \<Rightarrow> (real \<times> real) list \<Rightarrow> globals \<Rightarrow> error option \<times> (real \<times> real) list" where
  "write_channels t outdata g =
    (let sr = real_of_int (sampling_rate g)
     in case phase_left g of
          PyNone \<Rightarrow> (Some TypeError, outdata)
        | PyFloat pl \<Rightarrow>
       (case phase_right g of
          PyNone \<Rightarrow> (Some TypeError, outdata)
        | PyFloat pr \<Rightarrow>
       (case volume g of
          PyNone \<Rightarrow> (Some TypeError, outdata)
        | PyFloat v \<Rightarrow>
       (case frequency_left g of
          PyNone \<Rightarrow> (Some TypeError, outdata)
        | PyFloat fl \<Rightarrow>
       (let out0 = set_column0 outdata
                     (map (\<lambda>x. v * 0.5 * sin (2 * pi * fl * x / sr + pl * pi / 180)) t)
        in case frequency_right g of
             PyNone \<Rightarrow> (Some TypeError, out0)
           | PyFloat fr \<Rightarrow>
               (None, set_column1 out0
                        (map (\<lambda>x. v * 0.5 * sin (2 * pi * fr * x / sr + pr * pi / 180)) t)))))))"

text \<open>
  The callback with the sample times of line 148 as the doubles the program computes. All
  other operations are idealised as in \<open>audio_callback\<close>: they are continuous in their
  arguments, so rounding changes their results in the last digits only.
\<close>

definition audio_callback_double ::
  "(real \<times> real) list \<Rightarrow> real \<Rightarrow> globals \<Rightarrow> error option \<times> (real \<times> real) list" where
  "audio_callback_double outdata outputBufferDacTime g =
     write_channels
       (double_sample_times (length outdata) outputBufferDacTime
          (real_of_int (sampling_rate g)))
       outdata g"

subsection \<open>Widget calls\<close>

datatype entry =
  frequency_left_entry | frequency_right_entry | phase_left_entry | phase_right_entry

datatype slider =
  frequency_left_slider | frequency_right_slider | phase_left_slider | phase_right_slider
  | volume_slider

datatype button = start_button | stop_button

datatype axes = ax1 | ax2

text \<open>
  Formatted texts are kept symbolic: \<open>Fixed1 x\<close> is \<open>f"{x:.1f}"\<close> and \<open>Percent k\<close> is
  \<open>f"{k}%"\<close>.
\<close>

datatype pytext = Fixed1 real | Percent int

datatype ui_call =
    showerror string string
  | entry_delete entry
  | entry_insert entry pytext
  | slider_set slider real
  | label_config pytext
  | button_config button string
  | ax_clear axes
  | ax_plot axes "real list" "real list"
  | canvas_draw
  | dialog_destroy
  | report_exception error

type_synonym outcome = "error option \<times> globals \<times> ui_call list"

text \<open>
  Run the rest of a function on the state the first part leaves, unless the first part
  raised.
\<close>

definition then_run :: "outcome \<Rightarrow> (globals \<Rightarrow> outcome) \<Rightarrow> outcome" where
  "then_run a f =
     (case a of
        (Some e, g, ui) \<Rightarrow> (Some e, g, ui)
      | (None, g, ui) \<Rightarrow> (case f g of (r, g', ui') \<Rightarrow> (r, g', ui @ ui')))"

text \<open>
  The clipping of \<open>set\<close> on a ttk scale created with \<open>from_=lo\<close> and \<open>to=hi\<close>, for
  \<open>lo < hi\<close>.
\<close>

definition clip :: "real \<Rightarrow> real \<Rightarrow> real \<Rightarrow> real" where
  "clip lo hi x = (if x < lo then lo else if hi < x then hi else x)"

text \<open>
  The text a \<open>.1f\<close> format produces, read back by \<open>float\<close>: the value rounded to one
  decimal, ties to the even digit.
\<close>

definition round_1f :: "real \<Rightarrow> real" where
  "round_1f x =
     (let y = x * 10; f = \<lfloor>y\<rfloor>
      in of_int (if y - of_int f < 1 / 2 then f
                 else if 1 / 2 < y - of_int f then f + 1
                 else if even f then f else f + 1) / 10)"

subsection \<open>The waveform plot\<close>

text \<open>\<open>np.linspace(0, stop, num, endpoint=False)\<close> for \<open>num \<ge> 0\<close>.\<close>

definition linspace_open :: "real \<Rightarrow> int \<Rightarrow> real list" where
  "linspace_open stop num = map (\<lambda>i. real i * (stop / of_int num)) [0..<nat num]"

text \<open>
  Lines 66 to 71 of \<open>plot_waveforms\<close>: the sample times and the two plotted waves.
  \<open>np.linspace\<close> raises ValueError for a negative number of samples.
\<close>

definition plot_waveforms_data :: "globals \<Rightarrow> error + real list \<times> real list \<times> real list" where
  "plot_waveforms_data g =
    (let duration = 0.05;
         num = py_int (of_int (sampling_rate g) * duration)
     in if num < 0 then Inl ValueError
        else
       (let t = linspace_open duration num
        in case phase_left g of
             PyNone \<Rightarrow> Inl TypeError
           | PyFloat pl \<Rightarrow>
          (case phase_right g of
             PyNone \<Rightarrow> Inl TypeError
           | PyFloat pr \<Rightarrow>
          (case frequency_left g of
             PyNone \<Rightarrow> Inl TypeError
           | PyFloat fl \<Rightarrow>
          (case frequency_right g of
             PyNone \<Rightarrow> Inl TypeError
           | PyFloat fr \<Rightarrow>
               Inr (t, map (\<lambda>x. 0.5 * sin (2 * pi * fl * x + pl * pi / 180)) t,
                       map (\<lambda>x. 0.5 * sin (2 * pi * fr * x + pr * pi / 180)) t))))))"

text \<open>\<open>plot_waveforms()\<close>, lines 59 to 111.\<close>

definition plot_waveforms :: "globals \<Rightarrow> error option \<times> ui_call list" where
  "plot_waveforms g =
     (case plot_waveforms_data g of
        Inl e \<Rightarrow> (Some e, [])
      | Inr (t, wave1, wave2) \<Rightarrow>
          (None, [ax_clear ax1, ax_clear ax2, ax_plot ax1 t wave1, ax_plot ax2 t wave2,
                  canvas_draw]))"

subsection \<open>Frequency and phase handlers\<close>

text \<open>
  Each handler reads its entry field with \<open>float(entry.get())\<close>. The argument
  \<open>entry_float\<close> is the outcome of that conversion: \<open>None\<close> when \<open>float\<close> raises
  ValueError, otherwise the number read. The \<open>event\<close> argument is not used by the source.

  The \<open>except ValueError\<close> block of each handler is a definition of its own; it also
  runs when \<open>plot_waveforms\<close> raises ValueError inside the \<open>try\<close>. Both the
  \<open>try\<close> block (unless \<open>from_slider\<close>) and the \<open>except\<close> block set the slider,
  which stores the frequency or phase once more, clipped and with one decimal.
\<close>

text \<open>
  The end of a slider command that has stored its value and calls \<open>plot_waveforms\<close>:
  an exception is reported by tkinter, not raised. When \<open>plot_waveforms\<close> raises
  ValueError there (a sampling rate of -20 or less), the handler's \<open>except\<close> block sets
  the slider again and the command re-enters itself with the same value until Python
  raises RecursionError, which is reported too; of that chain the record keeps the report
  only.
\<close>

definition reported :: "error option \<times> ui_call list \<Rightarrow> ui_call list" where
  "reported r =
     (case r of
        (None, ui) \<Rightarrow> ui
      | (Some ValueError, ui) \<Rightarrow> ui @ [report_exception RecursionError]
      | (Some e, ui) \<Rightarrow> ui @ [report_exception e])"

text \<open>
  \<open>frequency_left_slider.set(x)\<close>. The slider is created with \<open>from_=1\<close>, \<open>to=20000\<close> and
  \<open>command=update_frequency_left_slider\<close> (lines 570 to 577). The value is clipped and
  the command runs (lines 114 to 118): it writes the value with one decimal into the
  entry and calls \<open>update_frequency_left(from_slider=True)\<close>, which reads the entry back,
  finds the number within [1, 20000], stores it and calls \<open>plot_waveforms\<close>.
\<close>

definition frequency_left_slider_set :: "real \<Rightarrow> globals \<Rightarrow> globals \<times> ui_call list" where
  "frequency_left_slider_set x g =
     (let val = clip 1 20000 x;
          g' = g\<lparr>frequency_left := PyFloat (round_1f val)\<rparr>
      in (g', [slider_set frequency_left_slider val, entry_delete frequency_left_entry,
               entry_insert frequency_left_entry (Fixed1 val)] @ reported (plot_waveforms g')))"

definition update_frequency_left_except :: "globals \<Rightarrow> ui_call list \<Rightarrow> outcome" where
  "update_frequency_left_except g ui =
     (let ui1 = ui @ [showerror ''Invalid Value''
                        ''Please enter a valid number between 1 and 20000 for Frequency Left.'',
                      entry_delete frequency_left_entry]
      in case frequency_left g of
           PyNone \<Rightarrow> (Some TypeError, g, ui1)
         | PyFloat f \<Rightarrow>
            (case frequency_left_slider_set f g of
               (g', ui') \<Rightarrow> (None, g', ui1 @ [entry_insert frequency_left_entry (Fixed1 f)] @ ui')))"

definition update_frequency_left :: "bool \<Rightarrow> real option \<Rightarrow> globals \<Rightarrow> outcome" where
  "update_frequency_left from_slider entry_float g =
     (case entry_float of
        None \<Rightarrow> update_frequency_left_except g []
      | Some new_frequency \<Rightarrow>
          if 1 \<le> new_frequency \<and> new_frequency \<le> 20000 then
            (case (if from_slider then (g\<lparr>frequency_left := PyFloat new_frequency\<rparr>, [])
                   else frequency_left_slider_set new_frequency (g\<lparr>frequency_left := PyFloat new_frequency\<rparr>)) of
               (g', ui) \<Rightarrow>
                 (case plot_waveforms g' of
                    (None, ui') \<Rightarrow> (None, g', ui @ ui')
                  | (Some ValueError, ui') \<Rightarrow> update_frequency_left_except g' (ui @ ui')
                  | (Some e, ui') \<Rightarrow> (Some e, g', ui @ ui')))
          else update_frequency_left_except g [])"

text \<open>
  \<open>frequency_right_slider.set(x)\<close>. The slider is created with \<open>from_=1\<close>, \<open>to=20000\<close> and
  \<open>command=update_frequency_right_slider\<close> (lines 615 to 622). The value is clipped and
  the command runs (lines 121 to 125): it writes the value with one decimal into the
  entry and calls \<open>update_frequency_right(from_slider=True)\<close>, which reads the entry back,
  finds the number within [1, 20000], stores it and calls \<open>plot_waveforms\<close>.
\<close>

definition frequency_right_slider_set :: "real \<Rightarrow> globals \<Rightarrow> globals \<times> ui_call list" where
  "frequency_right_slider_set x g =
     (let val = clip 1 20000 x;
          g' = g\<lparr>frequency_right := PyFloat (round_1f val)\<rparr>
      in (g', [slider_set frequency_right_slider val, entry_delete frequency_right_entry,
               entry_insert frequency_right_entry (Fixed1 val)] @ reported (plot_waveforms g')))"

definition update_frequency_right_except :: "globals \<Rightarrow> ui_call list \<Rightarrow> outcome" where
  "update_frequency_right_except g ui =
     (let ui1 = ui @ [showerror ''Invalid Value''
                        ''Please enter a valid number between 1 and 20000 for Frequency Right.'',
                      entry_delete frequency_right_entry]
      in case frequency_right g of
           PyNone \<Rightarrow> (Some TypeError, g, ui1)
         | PyFloat f \<Rightarrow>
            (case frequency_right_slider_set f g of
               (g', ui') \<Rightarrow> (None, g', ui1 @ [entry_insert frequency_right_entry (Fixed1 f)] @ ui')))"

definition update_frequency_right :: "bool \<Rightarrow> real option \<Rightarrow> globals \<Rightarrow> outcome" where
  "update_frequency_right from_slider entry_float g =
     (case entry_float of
        None \<Rightarrow> update_frequency_right_except g []
      | Some new_frequency \<Rightarrow>
          if 1 \<le> new_frequency \<and> new_frequency \<le> 20000 then
            (case (if from_slider then (g\<lparr>frequency_right := PyFloat new_frequency\<rparr>, [])
                   else frequency_right_slider_set new_frequency (g\<lparr>frequency_right := PyFloat new_frequency\<rparr>)) of
               (g', ui) \<Rightarrow>
                 (case plot_waveforms g' of
                    (None, ui') \<Rightarrow> (None, g', ui @ ui')
                  | (Some ValueError, ui') \<Rightarrow> update_frequency_right_except g' (ui @ ui')
                  | (Some e, ui') \<Rightarrow> (Some e, g', ui @ ui')))
          else update_frequency_right_except g [])"

text \<open>
  \<open>phase_left_slider.set(x)\<close>. The slider is created with \<open>from_=0\<close>, \<open>to=360\<close> and
  \<open>command=update_phase_left_slider\<close> (lines 588 to 595). The value is clipped and
  the command runs (lines 128 to 132): it writes the value with one decimal into the
  entry and calls \<open>update_phase_left(from_slider=True)\<close>, which reads the entry back,
  finds the number within [0, 360], stores it and calls \<open>plot_waveforms\<close>.
\<close>

definition phase_left_slider_set :: "real \<Rightarrow> globals \<Rightarrow> globals \<times> ui_call list" where
  "phase_left_slider_set x g =
     (let val = clip 0 360 x;
          g' = g\<lparr>phase_left := PyFloat (round_1f val)\<rparr>
      in (g', [slider_set phase_left_slider val, entry_delete phase_left_entry,
               entry_insert phase_left_entry (Fixed1 val)] @ reported (plot_waveforms g')))"

definition update_phase_left_except :: "globals \<Rightarrow> ui_call list \<Rightarrow> outcome" where
  "update_phase_left_except g ui =
     (let ui1 = ui @ [showerror ''Invalid Value''
                        ''Please enter a valid number between 0 and 360 for Phase Left.'',
                      entry_delete phase_left_entry]
      in case phase_left g of
           PyNone \<Rightarrow> (Some TypeError, g, ui1)
         | PyFloat f \<Rightarrow>
            (case phase_left_slider_set f g of
               (g', ui') \<Rightarrow> (None, g', ui1 @ [entry_insert phase_left_entry (Fixed1 f)] @ ui')))"

definition update_phase_left :: "bool \<Rightarrow> real option \<Rightarrow> globals \<Rightarrow> outcome" where
  "update_phase_left from_slider entry_float g =
     (case entry_float of
        None \<Rightarrow> update_phase_left_except g []
      | Some new_phase \<Rightarrow>
          if 0 \<le> new_phase \<and> new_phase \<le> 360 then
            (case (if from_slider then (g\<lparr>phase_left := PyFloat new_phase\<rparr>, [])
                   else phase_left_slider_set new_phase (g\<lparr>phase_left := PyFloat new_phase\<rparr>)) of
               (g', ui) \<Rightarrow>
                 (case plot_waveforms g' of
                    (None, ui') \<Rightarrow> (None, g', ui @ ui')
                  | (Some ValueError, ui') \<Rightarrow> update_phase_left_except g' (ui @ ui')
                  | (Some e, ui') \<Rightarrow> (Some e, g', ui @ ui')))
          else update_phase_left_except g [])"

text \<open>
  \<open>phase_right_slider.set(x)\<close>. The slider is created with \<open>from_=0\<close>, \<open>to=360\<close> and
  \<open>command=update_phase_right_slider\<close> (lines 633 to 640). The value is clipped and
  the command runs (lines 135 to 139): it writes the value with one decimal into the
  entry and calls \<open>update_phase_right(from_slider=True)\<close>, which reads the entry back,
  finds the number within [0, 360], stores it and calls \<open>plot_waveforms\<close>.
\<close>

definition phase_right_slider_set :: "real \<Rightarrow> globals \<Rightarrow> globals \<times> ui_call list" where
  "phase_right_slider_set x g =
     (let val = clip 0 360 x;
          g' = g\<lparr>phase_right := PyFloat (round_1f val)\<rparr>
      in (g', [slider_set phase_right_slider val, entry_delete phase_right_entry,
               entry_insert phase_right_entry (Fixed1 val)] @ reported (plot_waveforms g')))"

definition update_phase_right_except :: "globals \<Rightarrow> ui_call list \<Rightarrow> outcome" where
  "update_phase_right_except g ui =
     (let ui1 = ui @ [showerror ''Invalid Value''
                        ''Please enter a valid number between 0 and 360 for Phase Right.'',
                      entry_delete phase_right_entry]
      in case phase_right g of
           PyNone \<Rightarrow> (Some TypeError, g, ui1)
         | PyFloat f \<Rightarrow>
            (case phase_right_slider_set f g of
               (g', ui') \<Rightarrow> (None, g', ui1 @ [entry_insert phase_right_entry (Fixed1 f)] @ ui')))"

definition update_phase_right :: "bool \<Rightarrow> real option \<Rightarrow> globals \<Rightarrow> outcome" where
  "update_phase_right from_slider entry_float g =
     (case entry_float of
        None \<Rightarrow> update_phase_right_except g []
      | Some new_phase \<Rightarrow>
          if 0 \<le> new_phase \<and> new_phase \<le> 360 then
            (case (if from_slider then (g\<lparr>phase_right := PyFloat new_phase\<rparr>, [])
                   else phase_right_slider_set new_phase (g\<lparr>phase_right := PyFloat new_phase\<rparr>)) of
               (g', ui) \<Rightarrow>
                 (case plot_waveforms g' of
                    (None, ui') \<Rightarrow> (None, g', ui @ ui')
                  | (Some ValueError, ui') \<Rightarrow> update_phase_right_except g' (ui @ ui')
                  | (Some e, ui') \<Rightarrow> (Some e, g', ui @ ui')))
          else update_phase_right_except g [])"

text \<open>
  The slider commands, lines 114 to 139: \<open>val\<close> is the outcome of \<open>float(val)\<close>. The
  entry field receives \<open>f"{float(val):.1f}"\<close>, which the handler then reads back.
\<close>

definition slider_command ::
  "entry \<Rightarrow> (bool \<Rightarrow> real option \<Rightarrow> globals \<Rightarrow> outcome) \<Rightarrow> real option \<Rightarrow> globals \<Rightarrow> outcome" where
  "slider_command e update val g =
     (case val of
        None \<Rightarrow> (Some ValueError, g, [entry_delete e])
      | Some x \<Rightarrow>
          (case update True (Some (round_1f x)) g of
             (r, g', ui) \<Rightarrow> (r, g', [entry_delete e, entry_insert e (Fixed1 x)] @ ui)))"

definition update_frequency_left_slider :: "real option \<Rightarrow> globals \<Rightarrow> outcome" where
  "update_frequency_left_slider = slider_command frequency_left_entry update_frequency_left"

definition update_frequency_right_slider :: "real option \<Rightarrow> globals \<Rightarrow> outcome" where
  "update_frequency_right_slider = slider_command frequency_right_entry update_frequency_right"

definition update_phase_left_slider :: "real option \<Rightarrow> globals \<Rightarrow> outcome" where
  "update_phase_left_slider = slider_command phase_left_entry update_phase_left"

definition update_phase_right_slider :: "real option \<Rightarrow> globals \<Rightarrow> outcome" where
  "update_phase_right_slider = slider_command phase_right_entry update_phase_right"

subsection \<open>Volume\<close>

text \<open>
  \<open>update_volume(val)\<close>, lines 263 to 273; \<open>val\<close> is the outcome of \<open>float(val)\<close>. The
  function has no range test and no \<open>try\<close>.
\<close>

definition update_volume :: "real option \<Rightarrow> globals \<Rightarrow> outcome" where
  "update_volume val g =
     (case val of
        None \<Rightarrow> (Some ValueError, g, [])
      | Some x \<Rightarrow>
          (None, g\<lparr>volume := PyFloat (x / 100)\<rparr>,
           if volume_value_label g then [label_config (Percent (py_int x))] else []))"

text \<open>
  \<open>volume_slider.set(x)\<close>. The slider is created with \<open>from_=0\<close>, \<open>to=100\<close> and
  \<open>command=update_volume\<close> (lines 649 to 656): the value is clipped and
  \<open>update_volume\<close> runs with it.
\<close>

definition volume_slider_set :: "real \<Rightarrow> globals \<Rightarrow> globals \<times> ui_call list" where
  "volume_slider_set x g =
     (let val = clip 0 100 x
      in case update_volume (Some val) g of
           (r, g', ui) \<Rightarrow>
             (g', slider_set volume_slider val # ui @
                  (case r of None \<Rightarrow> [] | Some e \<Rightarrow> [report_exception e])))"

subsection \<open>Stream start and stop\<close>

text \<open>
  \<open>start_stream()\<close> and \<open>stop_stream()\<close>, lines 276 to 298. The arguments say whether
  the device calls succeed: \<open>sd.OutputStream(...)\<close>, \<open>stream.start()\<close> and
  \<open>stream.stop()\<close> raise PortAudioError otherwise.
\<close>

definition start_stream :: "bool \<Rightarrow> bool \<Rightarrow> globals \<Rightarrow> outcome" where
  "start_stream open_ok start_ok g =
     (if stream g = None \<or> stream g = Some False then
        if \<not> open_ok then (Some PortAudioError, g, [])
        else if \<not> start_ok then (Some PortAudioError, g\<lparr>stream := Some False\<rparr>, [])
        else (None, g\<lparr>stream := Some True\<rparr>,
              [button_config start_button ''disabled'', button_config stop_button ''normal''])
      else (None, g, []))"

definition stop_stream :: "bool \<Rightarrow> globals \<Rightarrow> outcome" where
  "stop_stream stop_ok g =
     (if stream g = Some True then
        if \<not> stop_ok then (Some PortAudioError, g, [])
        else (None, g\<lparr>stream := Some False\<rparr>,
              [button_config start_button ''normal'', button_config stop_button ''disabled''])
      else (None, g, []))"

subsection \<open>Loading a saved configuration\<close>

text \<open>
  One group of \<open>update_ui_values\<close>: clear the entry, insert the formatted value, set the
  slider. Formatting \<open>None\<close> raises TypeError after the entry has been cleared.
\<close>

definition entry_and_slider ::
  "entry \<Rightarrow> pyval \<Rightarrow> (real \<Rightarrow> globals \<Rightarrow> globals \<times> ui_call list) \<Rightarrow> globals \<Rightarrow> outcome" where
  "entry_and_slider e x set_slider g =
     (case x of
        PyNone \<Rightarrow> (Some TypeError, g, [entry_delete e])
      | PyFloat f \<Rightarrow>
          (case set_slider f g of
             (g', ui) \<Rightarrow> (None, g', [entry_delete e, entry_insert e (Fixed1 f)] @ ui)))"

text \<open>
  The volume group of \<open>update_ui_values\<close>, lines 514 to 518: the label shows the
  volume as it is after the slider has been set.
\<close>

definition volume_and_label :: "globals \<Rightarrow> outcome" where
  "volume_and_label g =
     (case volume g of
        PyNone \<Rightarrow> (Some TypeError, g, [])
      | PyFloat v \<Rightarrow>
          (case volume_slider_set (v * 100) g of
             (g', ui) \<Rightarrow>
               if volume_value_label g' then
                 (case volume g' of
                    PyNone \<Rightarrow> (Some TypeError, g', ui)
                  | PyFloat v' \<Rightarrow> (None, g', ui @ [label_config (Percent (py_int (v' * 100)))]))
               else (None, g', ui)))"

text \<open>\<open>update_ui_values()\<close>, lines 495 to 519.\<close>

definition update_ui_values :: "globals \<Rightarrow> outcome" where
  "update_ui_values g =
     then_run (entry_and_slider frequency_left_entry (frequency_left g)
                 frequency_left_slider_set g)
       (\<lambda>g. then_run (entry_and_slider frequency_right_entry (frequency_right g)
                        frequency_right_slider_set g)
       (\<lambda>g. then_run (entry_and_slider phase_left_entry (phase_left g)
                        phase_left_slider_set g)
       (\<lambda>g. then_run (entry_and_slider phase_right_entry (phase_right g)
                        phase_right_slider_set g)
       (\<lambda>g. then_run (volume_and_label g)
       (\<lambda>g. case plot_waveforms g of (r, ui) \<Rightarrow> (r, g, ui))))))"

text \<open>
  A row of the table \<open>configurations\<close> without its id and name: \<open>frequency_left\<close>,
  \<open>frequency_right\<close>, \<open>phase_left\<close>, \<open>phase_right\<close>, \<open>volume\<close>. The columns are declared
  REAL with no NOT NULL constraint.
\<close>

type_synonym config = "pyval \<times> pyval \<times> pyval \<times> pyval \<times> pyval"

text \<open>
  \<open>load_selected_config()\<close>, lines 464 to 485. The argument is \<open>None\<close> when nothing is
  selected in the list box, \<open>Some None\<close> when \<open>fetchone()\<close> finds no row and
  \<open>Some (Some row)\<close> otherwise. The five variables are assigned before
  \<open>update_ui_values\<close> runs, and nothing tests the values; the sliders set by
  \<open>update_ui_values\<close> store the numbers once more, clipped.
\<close>

definition load_selected_config :: "config option option \<Rightarrow> globals \<Rightarrow> outcome" where
  "load_selected_config selection g =
     (case selection of
        None \<Rightarrow> (None, g, [showerror ''Error'' ''Please select a configuration to load.''])
      | Some None \<Rightarrow> (None, g, [])
      | Some (Some (fl, fr, pl, pr, v)) \<Rightarrow>
          (let g' = g\<lparr>frequency_left := fl, frequency_right := fr, phase_left := pl,
                       phase_right := pr, volume := v\<rparr>
           in case update_ui_values g' of
                (None, g'', ui) \<Rightarrow> (None, g'', ui @ [dialog_destroy])
              | (Some e, g'', ui) \<Rightarrow> (Some e, g'', ui)))"

subsection \<open>Predicates on the module state\<close>

text \<open>The five tone parameters of a state, in the order of the saved record.\<close>

definition tone_parameters :: "globals \<Rightarrow> config" where
  "tone_parameters g =
     (frequency_left g, frequency_right g, phase_left g, phase_right g, volume g)"

definition in_range :: "real \<Rightarrow> real \<Rightarrow> pyval \<Rightarrow> bool" where
  "in_range lo hi x = (case x of PyNone \<Rightarrow> False | PyFloat f \<Rightarrow> lo \<le> f \<and> f \<le> hi)"

text \<open>
  The ranges the handlers test: frequencies in [1, 20000], phases in [0, 360]; the volume
  is a fraction in [0, 1].
\<close>

definition valid_config :: "config \<Rightarrow> bool" where
  "valid_config c =
     (case c of (fl, fr, pl, pr, v) \<Rightarrow>
        in_range 1 20000 fl \<and> in_range 1 20000 fr \<and> in_range 0 360 pl \<and>
        in_range 0 360 pr \<and> in_range 0 1 v)"

definition valid_params :: "globals \<Rightarrow> bool" where
  "valid_params g = valid_config (tone_parameters g)"

text \<open>
  An error dialog is among the widget calls; all widget calls are button configurations.
\<close>

definition is_showerror :: "ui_call \<Rightarrow> bool" where
  "is_showerror c = (case c of showerror title message \<Rightarrow> True | _ \<Rightarrow> False)"

definition signals_error :: "ui_call list \<Rightarrow> bool" where
  "signals_error ui = list_ex is_showerror ui"

definition is_button_config :: "ui_call \<Rightarrow> bool" where
  "is_button_config c = (case c of button_config b state \<Rightarrow> True | _ \<Rightarrow> False)"

section \<open>Properties\<close>

subsection \<open>Helper lemmas\<close>

lemma py_mod_of_int:
  assumes "0 < n"
  shows "py_mod (of_int k) (of_int n) = of_int (k mod n)"
proof -
  have "\<lfloor>(of_int k :: real) / of_int n\<rfloor> = k div n"
    by (simp add: floor_divide_of_int_eq)
  then have "py_mod (of_int k) (of_int n) = of_int k - of_int n * of_int (k div n)"
    by (simp add: py_mod_def)
  also have "\<dots> = of_int (k - n * (k div n))"
    by simp
  also have "k - n * (k div n) = k mod n"
    by (simp add: minus_mult_div_eq_mod)
  finally show ?thesis .
qed

lemma set_column0_nth:
  assumes "length w = length outdata" "i < length outdata"
  shows "set_column0 outdata w ! i = (w ! i, snd (outdata ! i))"
  using assms by (simp add: set_column0_def split_beta)

lemma set_column1_nth:
  assumes "length w = length outdata" "i < length outdata"
  shows "set_column1 outdata w ! i = (fst (outdata ! i), w ! i)"
  using assms by (simp add: set_column1_def split_beta)

lemma length_set_column0:
  "length w = length outdata \<Longrightarrow> length (set_column0 outdata w) = length outdata"
  by (simp add: set_column0_def)

lemma length_set_column1:
  "length w = length outdata \<Longrightarrow> length (set_column1 outdata w) = length outdata"
  by (simp add: set_column1_def)

lemma audio_callback_numeric:
  assumes "volume g = PyFloat v" "frequency_left g = PyFloat fl"
    "frequency_right g = PyFloat fr" "phase_left g = PyFloat pl" "phase_right g = PyFloat pr"
  shows "audio_callback outdata d g =
     (None, map (\<lambda>i. (v * 0.5 * sin (2 * pi * fl *
                          py_mod (real i + d * of_int (sampling_rate g)) (of_int (sampling_rate g))
                          / of_int (sampling_rate g) + pl * pi / 180),
                      v * 0.5 * sin (2 * pi * fr *
                          py_mod (real i + d * of_int (sampling_rate g)) (of_int (sampling_rate g))
                          / of_int (sampling_rate g) + pr * pi / 180)))
                [0..<length outdata])"
  using assms
  by (auto simp: audio_callback_def Let_def set_column0_nth set_column1_nth
      length_set_column0 length_set_column1 intro!: nth_equalityI)

lemma valid_params_numeric:
  assumes "valid_params g"
  obtains v fl fr pl pr where "volume g = PyFloat v" "frequency_left g = PyFloat fl"
    "frequency_right g = PyFloat fr" "phase_left g = PyFloat pl" "phase_right g = PyFloat pr"
    "0 \<le> v" "v \<le> 1" "1 \<le> fl" "fl \<le> 20000" "1 \<le> fr" "fr \<le> 20000"
    "0 \<le> pl" "pl \<le> 360" "0 \<le> pr" "pr \<le> 360"
  using assms
  by (auto simp: valid_params_def valid_config_def tone_parameters_def in_range_def
      split: pyval.splits)

lemma half_sine_bound:
  fixes v :: real
  assumes "0 \<le> v"
  shows "- (v / 2) \<le> v * 0.5 * sin x" and "v * 0.5 * sin x \<le> v / 2"
proof -
  have "v * sin x \<le> v * 1"
    using assms by (intro mult_left_mono) simp_all
  then show "v * 0.5 * sin x \<le> v / 2" by simp
  have "v * (- 1) \<le> v * sin x"
    using assms by (intro mult_left_mono) simp_all
  then show "- (v / 2) \<le> v * 0.5 * sin x" by simp
qed

lemma set_column0_right:
  "length w = length outdata \<Longrightarrow> map snd (set_column0 outdata w) = map snd outdata"
  by (auto simp: set_column0_nth length_set_column0 intro!: nth_equalityI)

lemma audio_callback_not_numeric:
  assumes "\<not> numeric_params g"
  shows "fst (audio_callback outdata d g) = Some TypeError"
    and "map snd (snd (audio_callback outdata d g)) = map snd outdata"
  using assms
  by (auto simp: audio_callback_def numeric_params_def Let_def set_column0_right
      split: pyval.splits)

lemma audio_callback_untouched:
  assumes "volume g = PyNone \<or> frequency_left g = PyNone \<or> phase_left g = PyNone \<or>
    phase_right g = PyNone"
  shows "snd (audio_callback outdata d g) = outdata"
  using assms
  by (auto simp: audio_callback_def Let_def split: pyval.splits)

lemma numeric_params_values:
  assumes "numeric_params g"
  obtains v fl fr pl pr where "volume g = PyFloat v" "frequency_left g = PyFloat fl"
    "frequency_right g = PyFloat fr" "phase_left g = PyFloat pl" "phase_right g = PyFloat pr"
  using assms
  by (cases "volume g"; cases "frequency_left g"; cases "frequency_right g";
      cases "phase_left g"; cases "phase_right g") (auto simp: numeric_params_def)

lemma py_int_twentieth:
  assumes "0 < sr" and "sr mod 20 = 0"
  shows "py_int (of_int sr * 0.05) = sr div 20"
proof -
  have "(20::int) dvd sr"
    using assms(2) by presburger
  then have "real_of_int (sr div 20) = real_of_int sr / 20"
    by (simp add: real_of_int_div)
  then have eq: "real_of_int sr * 0.05 = of_int (sr div 20)"
    by simp
  have "0 \<le> sr div 20"
    using assms(1) by simp
  then show ?thesis
    unfolding eq py_int_def by simp
qed

lemma plot_waveforms_data_numeric_eq:
  assumes "frequency_left g = PyFloat fl" and "frequency_right g = PyFloat fr"
    and "phase_left g = PyFloat pl" and "phase_right g = PyFloat pr"
    and "0 < sampling_rate g" and "sampling_rate g mod 20 = 0"
  shows "plot_waveforms_data g =
     Inr (map (\<lambda>i. real i / of_int (sampling_rate g)) [0..<nat (sampling_rate g div 20)],
          map (\<lambda>i. 0.5 * sin (2 * pi * fl * (real i / of_int (sampling_rate g)) + pl * pi / 180))
            [0..<nat (sampling_rate g div 20)],
          map (\<lambda>i. 0.5 * sin (2 * pi * fr * (real i / of_int (sampling_rate g)) + pr * pi / 180))
            [0..<nat (sampling_rate g div 20)])"
proof -
  have "(20::int) dvd sampling_rate g"
    using assms(6) by presburger
  then have "real_of_int (sampling_rate g div 20) = real_of_int (sampling_rate g) / 20"
    by (simp add: real_of_int_div)
  then have step: "0.05 / real_of_int (sampling_rate g div 20) = 1 / of_int (sampling_rate g)"
    using assms(5) by simp
  have pos: "\<not> sampling_rate g div 20 < 0"
    using assms(5) by simp
  have t: "linspace_open 0.05 (sampling_rate g div 20)
      = map (\<lambda>i. real i / of_int (sampling_rate g)) [0..<nat (sampling_rate g div 20)]"
    unfolding linspace_open_def step by simp
  show ?thesis
    unfolding plot_waveforms_data_def Let_def py_int_twentieth [OF assms(5,6)] t
    using pos assms(1-4) by (simp add: comp_def)
qed

lemma py_mod_small:
  assumes "i < nat n"
  shows "py_mod (real i + 0 * of_int n) (of_int n) = real i"
proof -
  have "0 < n" using assms by simp
  from py_mod_of_int [OF this, of "int i"] have "py_mod (real i) (of_int n) = of_int (int i mod n)"
    by simp
  also have "int i mod n = int i"
    using assms by simp
  finally show ?thesis by simp
qed

lemma clip_between: "lo \<le> hi \<Longrightarrow> lo \<le> clip lo hi x \<and> clip lo hi x \<le> hi"
  by (simp add: clip_def)

lemma clip_id: "lo \<le> x \<Longrightarrow> x \<le> hi \<Longrightarrow> clip lo hi x = x"
  by (simp add: clip_def)

lemma round_1f_between:
  assumes "of_int L / 10 \<le> x" and "x \<le> of_int H / 10"
  shows "of_int L / 10 \<le> round_1f x \<and> round_1f x \<le> of_int H / 10"
proof -
  let ?f = "\<lfloor>x * 10\<rfloor>"
  have lo: "L \<le> ?f"
    using assms(1) by (simp add: le_floor_iff)
  have up: "?f \<le> H"
    using assms(2) by (simp add: floor_le_iff)
  have up1: "?f + 1 \<le> H" if "x * 10 - of_int ?f \<noteq> 0"
  proof -
    have "of_int ?f < x * 10"
      using that of_int_floor_le [of "x * 10"] by linarith
    also have "x * 10 \<le> of_int H"
      using assms(2) by simp
    finally have "?f < H" by simp
    then show ?thesis by simp
  qed
  have "round_1f x = of_int ?f / 10 \<or> (round_1f x = of_int (?f + 1) / 10 \<and> x * 10 - of_int ?f \<noteq> 0)"
    by (auto simp: round_1f_def Let_def)
  then show ?thesis
  proof
    assume "round_1f x = of_int ?f / 10"
    then show ?thesis using lo up by simp
  next
    assume a: "round_1f x = of_int (?f + 1) / 10 \<and> x * 10 - of_int ?f \<noteq> 0"
    then have "?f + 1 \<le> H" using up1 by blast
    moreover have "L \<le> ?f + 1" using lo by simp
    ultimately have "(of_int L :: real) \<le> of_int (?f + 1)" "(of_int (?f + 1) :: real) \<le> of_int H"
      by (simp_all only: of_int_le_iff)
    then show ?thesis using a by (simp add: divide_right_mono)
  qed
qed

lemma round_1f_frequency: "1 \<le> x \<Longrightarrow> x \<le> 20000 \<Longrightarrow> 1 \<le> round_1f x \<and> round_1f x \<le> 20000"
  using round_1f_between [of 10 x 200000] by simp

lemma round_1f_phase: "0 \<le> x \<Longrightarrow> x \<le> 360 \<Longrightarrow> 0 \<le> round_1f x \<and> round_1f x \<le> 360"
  using round_1f_between [of 0 x 3600] by simp

lemma round_1f_tenths: "round_1f (of_int k / 10) = of_int k / 10"
  by (simp add: round_1f_def)

lemma frequency_left_slider_set_state:
  "fst (frequency_left_slider_set x g)
   = g\<lparr>frequency_left := PyFloat (round_1f (clip 1 20000 x))\<rparr>"
  by (simp add: frequency_left_slider_set_def Let_def)

lemma update_frequency_left_except_state:
  "fst (snd (update_frequency_left_except g ui)) =
     (case frequency_left g of
        PyNone \<Rightarrow> g
      | PyFloat f \<Rightarrow> g\<lparr>frequency_left := PyFloat (round_1f (clip 1 20000 f))\<rparr>)"
  by (simp add: update_frequency_left_except_def Let_def split_beta
      frequency_left_slider_set_state split: pyval.splits)


lemma frequency_right_slider_set_state:
  "fst (frequency_right_slider_set x g)
   = g\<lparr>frequency_right := PyFloat (round_1f (clip 1 20000 x))\<rparr>"
  by (simp add: frequency_right_slider_set_def Let_def)

lemma update_frequency_right_except_state:
  "fst (snd (update_frequency_right_except g ui)) =
     (case frequency_right g of
        PyNone \<Rightarrow> g
      | PyFloat f \<Rightarrow> g\<lparr>frequency_right := PyFloat (round_1f (clip 1 20000 f))\<rparr>)"
  by (simp add: update_frequency_right_except_def Let_def split_beta
      frequency_right_slider_set_state split: pyval.splits)


lemma phase_left_slider_set_state:
  "fst (phase_left_slider_set x g)
   = g\<lparr>phase_left := PyFloat (round_1f (clip 0 360 x))\<rparr>"
  by (simp add: phase_left_slider_set_def Let_def)



lemma phase_right_slider_set_state:
  "fst (phase_right_slider_set x g)
   = g\<lparr>phase_right := PyFloat (round_1f (clip 0 360 x))\<rparr>"
  by (simp add: phase_right_slider_set_def Let_def)



lemma volume_slider_set_state:
  "fst (volume_slider_set x g) = g\<lparr>volume := PyFloat (clip 0 100 x / 100)\<rparr>"
  by (simp add: volume_slider_set_def update_volume_def Let_def)

lemma then_run_error:
  "fst (then_run a f) = (if fst a = None then fst (f (fst (snd a))) else fst a)"
  by (cases a) (auto simp: then_run_def split_beta split: option.splits)

lemma then_run_state:
  "fst (snd (then_run a f))
   = (if fst a = None then fst (snd (f (fst (snd a)))) else fst (snd a))"
  by (cases a) (auto simp: then_run_def split_beta split: option.splits)

lemma entry_and_slider_error:
  "fst (entry_and_slider e x set_slider g) = (if x = PyNone then Some TypeError else None)"
  by (simp add: entry_and_slider_def split_beta split: pyval.splits)

lemma entry_and_slider_state:
  "fst (snd (entry_and_slider e x set_slider g))
   = (case x of PyNone \<Rightarrow> g | PyFloat f \<Rightarrow> fst (set_slider f g))"
  by (simp add: entry_and_slider_def split_beta split: pyval.splits)

lemma volume_and_label_error:
  "fst (volume_and_label g) = (if volume g = PyNone then Some TypeError else None)"
  by (simp add: volume_and_label_def split_beta volume_slider_set_state split: pyval.splits)

lemma volume_and_label_state:
  "fst (snd (volume_and_label g))
   = (case volume g of
        PyNone \<Rightarrow> g
      | PyFloat v \<Rightarrow> g\<lparr>volume := PyFloat (clip 0 100 (v * 100) / 100)\<rparr>)"
  by (simp add: volume_and_label_def split_beta volume_slider_set_state split: pyval.splits)

lemmas update_ui_values_steps =
  update_ui_values_def then_run_error then_run_state entry_and_slider_error
  entry_and_slider_state volume_and_label_error volume_and_label_state
  frequency_left_slider_set_state frequency_right_slider_set_state
  phase_left_slider_set_state phase_right_slider_set_state split_beta


lemma update_ui_values_none:
  "(frequency_left (fst (snd (update_ui_values g))) = PyNone) = (frequency_left g = PyNone)"
  "(frequency_right (fst (snd (update_ui_values g))) = PyNone) = (frequency_right g = PyNone)"
  "(phase_left (fst (snd (update_ui_values g))) = PyNone) = (phase_left g = PyNone)"
  "(phase_right (fst (snd (update_ui_values g))) = PyNone) = (phase_right g = PyNone)"
  "(volume (fst (snd (update_ui_values g))) = PyNone) = (volume g = PyNone)"
  by (auto simp: update_ui_values_steps split: pyval.splits)

lemma update_ui_values_error_none:
  assumes "\<not> numeric_params g"
  shows "fst (update_ui_values g) = Some TypeError"
  using assms
  by (auto simp: update_ui_values_steps numeric_params_def split: pyval.splits)

lemma py_int_nonneg: "0 \<le> x \<Longrightarrow> 0 \<le> py_int x"
  by (simp add: py_int_def)

lemma plot_waveforms_data_numeric:
  assumes "numeric_params g" and "0 \<le> sampling_rate g"
  shows "\<exists>t wave1 wave2. plot_waveforms_data g = Inr (t, wave1, wave2)"
proof -
  have "0 \<le> py_int (of_int (sampling_rate g) * 0.05)"
    using assms(2) by (intro py_int_nonneg) simp
  then show ?thesis
    using assms(1)
    by (auto simp: plot_waveforms_data_def numeric_params_def Let_def split: pyval.splits)
qed

lemma plot_waveforms_numeric:
  assumes "numeric_params g" and "0 \<le> sampling_rate g"
  shows "fst (plot_waveforms g) = None \<and> \<not> signals_error (snd (plot_waveforms g))"
proof -
  from plot_waveforms_data_numeric [OF assms] obtain t wave1 wave2
    where "plot_waveforms_data g = Inr (t, wave1, wave2)" by blast
  then show ?thesis
    by (simp add: plot_waveforms_def signals_error_def is_showerror_def)
qed

lemma signals_error_append [simp]:
  "signals_error (xs @ ys) = (signals_error xs \<or> signals_error ys)"
  by (simp add: signals_error_def)

lemma reported_quiet: "\<not> signals_error (snd r) \<Longrightarrow> \<not> signals_error (reported r)"
  by (cases r) (auto simp: reported_def signals_error_def is_showerror_def
      split: option.splits error.splits)





lemma load_selected_config_state:
  "fst (snd (load_selected_config (Some (Some (fl, fr, pl, pr, v))) g))
   = fst (snd (update_ui_values (g\<lparr>frequency_left := fl, frequency_right := fr,
        phase_left := pl, phase_right := pr, volume := v\<rparr>)))"
  by (simp add: load_selected_config_def Let_def split_beta split: option.splits)

lemma load_selected_config_error:
  "fst (load_selected_config (Some (Some (fl, fr, pl, pr, v))) g)
   = fst (update_ui_values (g\<lparr>frequency_left := fl, frequency_right := fr,
        phase_left := pl, phase_right := pr, volume := v\<rparr>))"
  by (simp add: load_selected_config_def Let_def split_beta split: option.splits)



lemma frequency_left_slider_set_runs_command:
  assumes "fst (plot_waveforms (g\<lparr>frequency_left := PyFloat (round_1f (clip 1 20000 x))\<rparr>))
      \<noteq> Some ValueError"
  shows "frequency_left_slider_set x g =
     (case update_frequency_left_slider (Some (clip 1 20000 x)) g of
        (r, g', ui) \<Rightarrow>
          (g', slider_set frequency_left_slider (clip 1 20000 x) # ui @
               (case r of None \<Rightarrow> [] | Some e \<Rightarrow> [report_exception e])))"
proof -
  let ?v = "round_1f (clip 1 20000 x)"
  have range: "1 \<le> ?v \<and> ?v \<le> 20000"
    using clip_between [of 1 20000 x] round_1f_frequency by simp
  obtain r ui where p: "plot_waveforms (g\<lparr>frequency_left := PyFloat ?v\<rparr>) = (r, ui)"
    by (cases "plot_waveforms (g\<lparr>frequency_left := PyFloat ?v\<rparr>)")
  with assms have r: "r \<noteq> Some ValueError" by simp
  show ?thesis
    unfolding update_frequency_left_slider_def slider_command_def update_frequency_left_def
      frequency_left_slider_set_def Let_def
    using r by (simp add: range p reported_def split: option.splits error.splits)
qed

lemma frequency_right_slider_set_runs_command:
  assumes "fst (plot_waveforms (g\<lparr>frequency_right := PyFloat (round_1f (clip 1 20000 x))\<rparr>))
      \<noteq> Some ValueError"
  shows "frequency_right_slider_set x g =
     (case update_frequency_right_slider (Some (clip 1 20000 x)) g of
        (r, g', ui) \<Rightarrow>
          (g', slider_set frequency_right_slider (clip 1 20000 x) # ui @
               (case r of None \<Rightarrow> [] | Some e \<Rightarrow> [report_exception e])))"
proof -
  let ?v = "round_1f (clip 1 20000 x)"
  have range: "1 \<le> ?v \<and> ?v \<le> 20000"
    using clip_between [of 1 20000 x] round_1f_frequency by simp
  obtain r ui where p: "plot_waveforms (g\<lparr>frequency_right := PyFloat ?v\<rparr>) = (r, ui)"
    by (cases "plot_waveforms (g\<lparr>frequency_right := PyFloat ?v\<rparr>)")
  with assms have r: "r \<noteq> Some ValueError" by simp
  show ?thesis
    unfolding update_frequency_right_slider_def slider_command_def update_frequency_right_def
      frequency_right_slider_set_def Let_def
    using r by (simp add: range p reported_def split: option.splits error.splits)
qed

lemma phase_left_slider_set_runs_command:
  assumes "fst (plot_waveforms (g\<lparr>phase_left := PyFloat (round_1f (clip 0 360 x))\<rparr>))
      \<noteq> Some ValueError"
  shows "phase_left_slider_set x g =
     (case update_phase_left_slider (Some (clip 0 360 x)) g of
        (r, g', ui) \<Rightarrow>
          (g', slider_set phase_left_slider (clip 0 360 x) # ui @
               (case r of None \<Rightarrow> [] | Some e \<Rightarrow> [report_exception e])))"
proof -
  let ?v = "round_1f (clip 0 360 x)"
  have range: "0 \<le> ?v \<and> ?v \<le> 360"
    using clip_between [of 0 360 x] round_1f_phase by simp
  obtain r ui where p: "plot_waveforms (g\<lparr>phase_left := PyFloat ?v\<rparr>) = (r, ui)"
    by (cases "plot_waveforms (g\<lparr>phase_left := PyFloat ?v\<rparr>)")
  with assms have r: "r \<noteq> Some ValueError" by simp
  show ?thesis
    unfolding update_phase_left_slider_def slider_command_def update_phase_left_def
      phase_left_slider_set_def Let_def
    using r by (simp add: range p reported_def split: option.splits error.splits)
qed

lemma phase_right_slider_set_runs_command:
  assumes "fst (plot_waveforms (g\<lparr>phase_right := PyFloat (round_1f (clip 0 360 x))\<rparr>))
      \<noteq> Some ValueError"
  shows "phase_right_slider_set x g =
     (case update_phase_right_slider (Some (clip 0 360 x)) g of
        (r, g', ui) \<Rightarrow>
          (g', slider_set phase_right_slider (clip 0 360 x) # ui @
               (case r of None \<Rightarrow> [] | Some e \<Rightarrow> [report_exception e])))"
proof -
  let ?v = "round_1f (clip 0 360 x)"
  have range: "0 \<le> ?v \<and> ?v \<le> 360"
    using clip_between [of 0 360 x] round_1f_phase by simp
  obtain r ui where p: "plot_waveforms (g\<lparr>phase_right := PyFloat ?v\<rparr>) = (r, ui)"
    by (cases "plot_waveforms (g\<lparr>phase_right := PyFloat ?v\<rparr>)")
  with assms have r: "r \<noteq> Some ValueError" by simp
  show ?thesis
    unfolding update_phase_right_slider_def slider_command_def update_phase_right_def
      phase_right_slider_set_def Let_def
    using r by (simp add: range p reported_def split: option.splits error.splits)
qed

lemma volume_slider_set_runs_command:
  "volume_slider_set x g =
     (case update_volume (Some (clip 0 100 x)) g of
        (r, g', ui) \<Rightarrow>
          (g', slider_set volume_slider (clip 0 100 x) # ui @
               (case r of None \<Rightarrow> [] | Some e \<Rightarrow> [report_exception e])))"
  by (simp add: volume_slider_set_def Let_def)

lemma audio_callback_write_channels:
  "audio_callback outdata d g =
     write_channels
       (map (\<lambda>i. py_mod (real i + d * of_int (sampling_rate g)) (of_int (sampling_rate g)))
          [0..<length outdata])
       outdata g"
  by (simp add: audio_callback_def write_channels_def Let_def)

lemma nearest_even_of_int [simp]: "nearest_even (of_int m) = m"
  by (simp add: nearest_even_def)

lemma two_powr_powi: "(2::real) powr real_of_int k = 2 powi k"
  by (rule powr_real_of_int') simp_all

lemma floor_log2:
  assumes "2 powi k \<le> x" and "x < 2 powi (k + 1)"
  shows "\<lfloor>log 2 x\<rfloor> = k"
proof -
  have "0 < (2::real) powi k" by simp
  with assms(1) have "0 < x" by linarith
  then show ?thesis
    using assms by (simp only: floor_log_eq_powr_iff [of x 2 k] two_powr_powi)
qed

lemma double_round_binade:
  assumes "2 powi k \<le> \<bar>x\<bar>" and "\<bar>x\<bar> < 2 powi (k + 1)" and "- 1022 \<le> k"
  shows "double_round x = of_int (nearest_even (x / 2 powi (k - 52))) * 2 powi (k - 52)"
proof -
  have "0 < \<bar>x\<bar>"
    using assms(1) zero_less_power_int [of "2::real" k] by linarith
  then have "x \<noteq> 0" by simp
  moreover have "\<lfloor>log 2 \<bar>x\<bar>\<rfloor> = k"
    using assms(1,2) by (rule floor_log2)
  moreover have "max (k - 52) (- 1074) = k - 52"
    using assms(3) by simp
  ultimately show ?thesis
    by (simp add: double_round_def Let_def)
qed

lemma two_powi_neg: "0 \<le> m \<Longrightarrow> (2::real) powi (- m) = inverse (2 ^ nat m)"
  by (simp add: power_int_def power_one_over inverse_eq_divide)

lemma double_round_int:
  assumes "\<bar>n\<bar> < 2 ^ 53"
  shows "double_round (of_int n) = of_int n"
proof (cases "n = 0")
  case True
  then show ?thesis by (simp add: double_round_def)
next
  case False
  define k where "k = \<lfloor>log 2 \<bar>real_of_int n\<bar>\<rfloor>"
  have pos: "0 < \<bar>real_of_int n\<bar>" using False by simp
  have b: "2 powi k \<le> \<bar>real_of_int n\<bar>" "\<bar>real_of_int n\<bar> < 2 powi (k + 1)"
    using floor_log_eq_powr_iff [of "\<bar>real_of_int n\<bar>" 2 k] pos
    by (simp_all only: k_def two_powr_powi) simp_all
  have one: "1 \<le> \<bar>real_of_int n\<bar>"
  proof -
    have "1 \<le> \<bar>n\<bar>" using False by simp
    then have "real_of_int 1 \<le> real_of_int \<bar>n\<bar>" by (simp only: of_int_le_iff)
    then show ?thesis by simp
  qed
  have k0: "0 \<le> k"
  proof (rule ccontr)
    assume "\<not> 0 \<le> k"
    then have "k + 1 \<le> 0" by simp
    then have "(2::real) powi (k + 1) \<le> 2 powi 0"
      by (intro power_int_increasing) simp_all
    with b(2) one show False by simp
  qed
  have k52: "k \<le> 52"
  proof (rule ccontr)
    assume "\<not> k \<le> 52"
    then have "53 \<le> k" by simp
    then have "(2::real) powi 53 \<le> 2 powi k"
      by (intro power_int_increasing) simp_all
    also have "\<dots> \<le> \<bar>real_of_int n\<bar>" by (rule b(1))
    finally have "(2::real) ^ 53 \<le> \<bar>real_of_int n\<bar>" by simp
    moreover have "real_of_int \<bar>n\<bar> < real_of_int (2 ^ 53)"
      using assms by (simp only: of_int_less_iff)
    ultimately show False by simp
  qed
  have "- 1022 \<le> k" using k0 by simp
  from double_round_binade [OF b this]
  have eq: "double_round (of_int n)
      = of_int (nearest_even (of_int n / 2 powi (k - 52))) * 2 powi (k - 52)" .
  have "k - 52 = - (52 - k)" by simp
  then have ulp: "(2::real) powi (k - 52) = inverse (2 ^ nat (52 - k))"
    using two_powi_neg [of "52 - k"] k52 by simp
  have scaled: "real_of_int n / 2 powi (k - 52) = of_int (n * 2 ^ nat (52 - k))"
    unfolding ulp by (simp add: field_simps)
  show ?thesis
    unfolding eq scaled nearest_even_of_int
    unfolding ulp by (simp add: field_simps)
qed

lemma double_round_nat: "n < 2 ^ 53 \<Longrightarrow> double_round (real n) = real n"
  using double_round_int [of "int n"] by simp

lemma powi_values:
  "(2::real) powi (- 48) = 1 / 281474976710656"
  "(2::real) powi (- 33) = 1 / 8589934592"
  "(2::real) powi (- 37) = 1 / 137438953472"
  by (simp_all add: power_int_minus inverse_eq_divide)

lemma dac_time_double:
  "double_round (837632 / 44100) = 5346314006623587 / 281474976710656"
proof -
  have "double_round (837632 / 44100)
      = of_int (nearest_even (837632 / 44100 / 2 powi (4 - 52))) * 2 powi (4 - 52)"
    by (rule double_round_binade) simp_all
  also have "\<dots> = 5346314006623587 / 281474976710656"
    by (simp add: powi_values nearest_even_def)
  finally show ?thesis .
qed

lemma product_double:
  "double_round (5346314006623587 / 281474976710656 * 44100) = 7195204092166143 / 8589934592"
proof -
  have "double_round (5346314006623587 / 281474976710656 * 44100)
      = of_int (nearest_even (5346314006623587 / 281474976710656 * 44100 / 2 powi (19 - 52)))
        * 2 powi (19 - 52)"
    by (rule double_round_binade) simp_all
  also have "\<dots> = 7195204092166143 / 8589934592"
    by (simp add: powi_values nearest_even_def)
  finally show ?thesis .
qed

lemma sum_double:
  "double_round (268 + 7195204092166143 / 8589934592) = 7197506194636799 / 8589934592"
proof -
  have "double_round (268 + 7195204092166143 / 8589934592)
      = of_int (nearest_even ((268 + 7195204092166143 / 8589934592) / 2 powi (19 - 52)))
        * 2 powi (19 - 52)"
    by (rule double_round_binade) simp_all
  also have "\<dots> = 7197506194636799 / 8589934592"
    by (simp add: powi_values nearest_even_def)
  finally show ?thesis .
qed

lemma remainder_value:
  "py_mod (7197506194636799 / 8589934592) 44100 = 378816115507199 / 8589934592"
  by (simp add: py_mod_def)

lemma remainder_double:
  "double_round (378816115507199 / 8589934592) = 378816115507199 / 8589934592"
proof -
  have "double_round (378816115507199 / 8589934592)
      = of_int (nearest_even (378816115507199 / 8589934592 / 2 powi (15 - 52)))
        * 2 powi (15 - 52)"
    by (rule double_round_binade) simp_all
  also have "\<dots> = 378816115507199 / 8589934592"
    by (simp add: powi_values nearest_even_def)
  finally show ?thesis .
qed

lemma late_sample_time:
  "double_sample_time 268 (5346314006623587 / 281474976710656) 44100
   = 378816115507199 / 8589934592"
  unfolding double_sample_time_def product_double of_nat_numeral sum_double remainder_value
    remainder_double
  by (rule refl)

lemma double_sample_times_nth:
  "i < frames \<Longrightarrow> double_sample_times frames d sr ! i = double_sample_time i d sr"
  by (simp add: double_sample_times_def)

lemma length_double_sample_times [simp]: "length (double_sample_times frames d sr) = frames"
  by (simp add: double_sample_times_def)

lemma write_channels_numeric:
  assumes "volume g = PyFloat v" "frequency_left g = PyFloat fl"
    "frequency_right g = PyFloat fr" "phase_left g = PyFloat pl" "phase_right g = PyFloat pr"
    and "length t = length outdata"
  shows "write_channels t outdata g =
     (None, map (\<lambda>i. (v * 0.5 * sin (2 * pi * fl * (t ! i) / of_int (sampling_rate g)
                                      + pl * pi / 180),
                      v * 0.5 * sin (2 * pi * fr * (t ! i) / of_int (sampling_rate g)
                                      + pr * pi / 180)))
                [0..<length outdata])"
  using assms
  by (auto simp: write_channels_def Let_def set_column0_nth set_column1_nth
      length_set_column0 length_set_column1 intro!: nth_equalityI)

lemma audio_callback_double_numeric:
  assumes "volume g = PyFloat v" "frequency_left g = PyFloat fl"
    "frequency_right g = PyFloat fr" "phase_left g = PyFloat pl" "phase_right g = PyFloat pr"
  shows "audio_callback_double outdata d g =
     (None, map (\<lambda>i. (v * 0.5 * sin (2 * pi * fl *
                          double_sample_time i d (of_int (sampling_rate g))
                          / of_int (sampling_rate g) + pl * pi / 180),
                      v * 0.5 * sin (2 * pi * fr *
                          double_sample_time i d (of_int (sampling_rate g))
                          / of_int (sampling_rate g) + pr * pi / 180)))
                [0..<length outdata])"
  unfolding audio_callback_double_def
  by (subst write_channels_numeric [OF assms]) (simp_all add: double_sample_times_nth)

lemma sine_near_wrap:
  "1 / 2 \<le> sin (2 * pi * (1003 / 10) * (378816115507199 / 8589934592) / 44100)"
proof -
  define c :: real where "c = 1003 / 5 * (1 / 8589934592) / 44100"
  have c: "0 \<le> c" "c \<le> 1 / 10"
    by (simp_all add: c_def)
  have "2 * pi * (1003 / 10) * (378816115507199 / 8589934592) / 44100
      = (pi - (2 * pi / 5 + c * pi)) + 2 * pi * of_int 100"
    by (simp add: c_def field_simps)
  then have "sin (2 * pi * (1003 / 10) * (378816115507199 / 8589934592) / 44100)
      = sin ((pi - (2 * pi / 5 + c * pi)) + 2 * pi * of_int 100)"
    by (simp only:)
  also have "\<dots> = sin (pi - (2 * pi / 5 + c * pi))"
    by (simp only: sin_add sin_int_2pin cos_int_2pin)
  also have "\<dots> = sin (2 * pi / 5 + c * pi)"
    by (rule sin_pi_minus)
  finally have eq: "sin (2 * pi * (1003 / 10) * (378816115507199 / 8589934592) / 44100)
      = sin (2 * pi / 5 + c * pi)" .
  have "c * pi \<le> 1 / 10 * pi"
    using c(2) by (intro mult_right_mono) simp_all
  moreover have "0 \<le> c * pi"
    using c(1) by simp
  ultimately have "sin (pi / 6) \<le> sin (2 * pi / 5 + c * pi)"
    using pi_gt_zero by (intro sin_monotone_2pi_le) (simp_all add: field_simps)
  then show ?thesis
    unfolding eq sin_30 .
qed

lemma exact_sample_time:
  assumes "0 < sr" and "double_round (d * of_int sr) = real startSample"
    and "startSample + i < 2 ^ 53"
  shows "double_sample_time i d (of_int sr) = of_int ((int startSample + int i) mod sr)"
proof -
  have sum: "double_round (real i + real startSample) = real (startSample + i)"
    using double_round_nat [OF assms(3)] by (simp add: add.commute)
  have "0 \<le> (int startSample + int i) mod sr"
    using assms(1) by simp
  moreover have "(int startSample + int i) mod sr \<le> int startSample + int i"
    using assms(1) by (intro zmod_le_nonneg_dividend) simp
  moreover have "int startSample + int i < 2 ^ 53"
    using assms(3) by (metis of_nat_add of_nat_less_numeral_power_cancel_iff)
  ultimately have "\<bar>(int startSample + int i) mod sr\<bar> < 2 ^ 53"
    by simp
  then have rem: "double_round (of_int ((int startSample + int i) mod sr))
      = of_int ((int startSample + int i) mod sr)"
    by (rule double_round_int)
  have "py_mod (real (startSample + i)) (of_int sr) = of_int ((int startSample + int i) mod sr)"
    using py_mod_of_int [OF assms(1), of "int startSample + int i"] by simp
  then show ?thesis
    by (simp only: double_sample_time_def assms(2) sum rem)
qed

lemma exact_sample_time_zero:
  assumes "0 < sr" and "i < 2 ^ 53"
  shows "double_sample_time i 0 (of_int sr) = of_int (int i mod sr)"
proof -
  have "double_round (0 * real_of_int sr) = real 0"
    by (simp add: double_round_def)
  from exact_sample_time [OF assms(1) this] assms(2) show ?thesis
    by simp
qed

lemma audio_callback_double_bound:
  assumes "valid_params g" and "volume g = PyFloat v" and "i < length outdata"
  shows "fst (audio_callback_double outdata d g) = None \<and>
    - (v / 2) \<le> fst (snd (audio_callback_double outdata d g) ! i) \<and>
    fst (snd (audio_callback_double outdata d g) ! i) \<le> v / 2 \<and>
    - (v / 2) \<le> snd (snd (audio_callback_double outdata d g) ! i) \<and>
    snd (snd (audio_callback_double outdata d g) ! i) \<le> v / 2"
proof -
  from assms(1) obtain v' fl fr pl pr where p: "volume g = PyFloat v'"
    "frequency_left g = PyFloat fl" "frequency_right g = PyFloat fr"
    "phase_left g = PyFloat pl" "phase_right g = PyFloat pr" and v': "0 \<le> v'" "v' \<le> 1"
    by (rule valid_params_numeric)
  from p(1) assms(2) have [simp]: "v' = v" by simp
  show ?thesis
    unfolding audio_callback_double_numeric [OF p]
    using assms(3) v' half_sine_bound [of v] by simp
qed

lemma audio_callback_double_not_numeric:
  assumes "\<not> numeric_params g"
  shows "fst (audio_callback_double outdata d g) = Some TypeError"
    and "map snd (snd (audio_callback_double outdata d g)) = map snd outdata"
  using assms
  by (auto simp: audio_callback_double_def write_channels_def numeric_params_def Let_def
      set_column0_right split: pyval.splits)

lemma audio_callback_double_exact:
  assumes "\<And>i. i < length outdata \<Longrightarrow>
    double_sample_time i d (of_int (sampling_rate g))
      = py_mod (real i + d * of_int (sampling_rate g)) (of_int (sampling_rate g))"
  shows "audio_callback_double outdata d g = audio_callback outdata d g"
proof -
  have "double_sample_times (length outdata) d (of_int (sampling_rate g))
      = map (\<lambda>i. py_mod (real i + d * of_int (sampling_rate g)) (of_int (sampling_rate g)))
          [0..<length outdata]"
    using assms by (simp add: double_sample_times_def)
  then show ?thesis
    by (simp add: audio_callback_double_def audio_callback_write_channels)
qed

subsection \<open>The rendered samples\<close>

text \<open>
  Claim C1, as amended. The callback has no sample counter: its start is the driver's DAC
  time \<open>d\<close>, and line 148 computes the sample time of row \<open>i\<close> as the remainder of
  \<open>i + d * sampling_rate\<close> modulo the sampling rate, in double arithmetic. With numeric
  tone parameters and a positive sampling rate the callback raises nothing, keeps the
  block length and writes at every row \<open>i\<close> the pair
  \<open>volume * 0.5 * sin (2 pi * frequency * t / sampling_rate + phase * pi / 180)\<close> for the
  left and the right parameters, where \<open>t\<close> is that double sample time. \<open>t\<close> is
  \<open>(startSample + i) mod sampling_rate\<close> whenever the double product
  \<open>d * sampling_rate\<close> is exactly the integer \<open>startSample\<close> and \<open>startSample + i\<close>
  is below \<open>2 ^ 53\<close>. The result is a function of the five parameters, the sampling
  rate, the DAC time and the block length only: neither the previous content of the
  buffer nor the rest of the module state matter.
\<close>

theorem audio_callback_double_formula:
  assumes "volume g = PyFloat v" and "frequency_left g = PyFloat fl"
    and "frequency_right g = PyFloat fr" and "phase_left g = PyFloat pl"
    and "phase_right g = PyFloat pr"
    and "0 < sampling_rate g" and "i < length outdata"
    and "tone_parameters g' = tone_parameters g" and "sampling_rate g' = sampling_rate g"
    and "length outdata' = length outdata"
  shows "fst (audio_callback_double outdata d g) = None \<and>
    length (snd (audio_callback_double outdata d g)) = length outdata \<and>
    snd (audio_callback_double outdata d g) ! i =
      (v * 0.5 * sin (2 * pi * fl * double_sample_time i d (of_int (sampling_rate g))
                        / of_int (sampling_rate g) + pl * pi / 180),
       v * 0.5 * sin (2 * pi * fr * double_sample_time i d (of_int (sampling_rate g))
                        / of_int (sampling_rate g) + pr * pi / 180)) \<and>
    (double_round (d * of_int (sampling_rate g)) = real startSample \<and>
     startSample + i < 2 ^ 53 \<longrightarrow>
       double_sample_time i d (of_int (sampling_rate g))
         = of_int ((int startSample + int i) mod sampling_rate g)) \<and>
    audio_callback_double outdata' d g' = audio_callback_double outdata d g"
proof -
  have g': "volume g' = PyFloat v" "frequency_left g' = PyFloat fl"
    "frequency_right g' = PyFloat fr" "phase_left g' = PyFloat pl" "phase_right g' = PyFloat pr"
    using assms(1-5,8) by (simp_all add: tone_parameters_def)
  note run = audio_callback_double_numeric [OF assms(1-5), of outdata d]
  note run' = audio_callback_double_numeric [OF g', of outdata' d]
  have same: "audio_callback_double outdata' d g' = audio_callback_double outdata d g"
    unfolding run run' using assms(9,10) by simp
  have sample: "snd (audio_callback_double outdata d g) ! i =
      (v * 0.5 * sin (2 * pi * fl * double_sample_time i d (of_int (sampling_rate g))
                        / of_int (sampling_rate g) + pl * pi / 180),
       v * 0.5 * sin (2 * pi * fr * double_sample_time i d (of_int (sampling_rate g))
                        / of_int (sampling_rate g) + pr * pi / 180))"
    unfolding run using assms(7) by simp
  have exact: "double_sample_time i d (of_int (sampling_rate g))
         = of_int ((int startSample + int i) mod sampling_rate g)"
    if "double_round (d * of_int (sampling_rate g)) = real startSample \<and>
      startSample + i < 2 ^ 53"
    using that exact_sample_time [OF assms(6)] by blast
  show ?thesis
    using same sample exact by (simp add: run)
qed

theorem audio_callback_double_formula_witness:
  "double_round (1 * real_of_int (sampling_rate initial_globals)) = real 44100 \<and>
   fst (audio_callback_double [(7, 7), (7, 7)] 1 initial_globals) = None \<and>
   snd (audio_callback_double [(7, 7), (7, 7)] 1 initial_globals) ! 1 =
     (2 / 10 * 0.5 * sin (2 * pi * 100 * 1 / 44100 + 0 * pi / 180),
      2 / 10 * 0.5 * sin (2 * pi * 104 * 1 / 44100 + 0 * pi / 180))"
proof -
  have "double_round (real_of_int 44100) = real_of_int 44100"
    by (rule double_round_int) simp
  then have product: "double_round (1 * real_of_int (sampling_rate initial_globals)) = real 44100"
    by (simp add: initial_globals_def)
  show ?thesis
    using product audio_callback_double_formula [where g = initial_globals and v = "2 / 10"
        and fl = 100 and fr = 104 and pl = 0 and pr = 0 and i = 1
        and outdata = "[(7, 7), (7, 7)]" and g' = initial_globals
        and outdata' = "[(7, 7), (7, 7)]" and d = 1 and startSample = 44100]
    by (simp add: initial_globals_def)
qed

text \<open>
  Claim C1 as first stated, for every \<open>startSample\<close>, fails. For the start sample
  837632 (409 blocks of 2048 rows) the DAC time is the double nearest to
  \<open>837632 / 44100\<close>; its product with 44100 is one unit in the last place below 837632,
  so the remainder wraps one row late. At row 268, where
  \<open>(startSample + i) mod 44100\<close> is 0 and the claim's left value is 0, the callback
  writes at least 1/20 when the left frequency is 100.3.
\<close>

theorem audio_callback_double_late_wrap_counterexample:
  "double_round (837632 / 44100) = 5346314006623587 / 281474976710656 \<and>
   sampling_rate (initial_globals\<lparr>frequency_left := PyFloat (1003 / 10)\<rparr>) = 44100 \<and>
   2 / 10 * 0.5 * sin (2 * pi * (1003 / 10) * real_of_int ((837632 + 268) mod 44100) / 44100
                       + 0 * pi / 180) = 0 \<and>
   1 / 20 \<le> fst (snd (audio_callback_double (replicate 2048 (0, 0))
                          (5346314006623587 / 281474976710656)
                          (initial_globals\<lparr>frequency_left := PyFloat (1003 / 10)\<rparr>)) ! 268)"
proof -
  let ?g = "initial_globals\<lparr>frequency_left := PyFloat (1003 / 10)\<rparr>"
  have "audio_callback_double (replicate 2048 (0, 0)) (5346314006623587 / 281474976710656) ?g =
     (None, map (\<lambda>i. (2 / 10 * 0.5 * sin (2 * pi * (1003 / 10) *
                          double_sample_time i (5346314006623587 / 281474976710656)
                            (of_int (sampling_rate ?g))
                          / of_int (sampling_rate ?g) + 0 * pi / 180),
                      2 / 10 * 0.5 * sin (2 * pi * 104 *
                          double_sample_time i (5346314006623587 / 281474976710656)
                            (of_int (sampling_rate ?g))
                          / of_int (sampling_rate ?g) + 0 * pi / 180)))
                [0..<length (replicate 2048 (0::real, 0::real))])"
    by (rule audio_callback_double_numeric) (simp_all add: initial_globals_def)
  note run = this
  have sr: "real_of_int (sampling_rate ?g) = 44100"
    by (simp add: initial_globals_def)
  have "fst (snd (audio_callback_double (replicate 2048 (0, 0))
                          (5346314006623587 / 281474976710656) ?g) ! 268)
      = 2 / 10 * 0.5 * sin (2 * pi * (1003 / 10) *
          double_sample_time 268 (5346314006623587 / 281474976710656)
            (of_int (sampling_rate ?g))
          / of_int (sampling_rate ?g) + 0 * pi / 180)"
    unfolding run by simp
  also have "\<dots> = 2 / 10 * 0.5
      * sin (2 * pi * (1003 / 10) * (378816115507199 / 8589934592) / 44100)"
    unfolding sr late_sample_time by simp
  finally have left: "fst (snd (audio_callback_double (replicate 2048 (0, 0))
                          (5346314006623587 / 281474976710656) ?g) ! 268)
      = 2 / 10 * 0.5
        * sin (2 * pi * (1003 / 10) * (378816115507199 / 8589934592) / 44100)" .
  have scale: "1 / 20 \<le> 2 / 10 * 0.5 * s" if "1 / 2 \<le> s" for s :: real
    using that by simp
  have "1 / 20 \<le> fst (snd (audio_callback_double (replicate 2048 (0, 0))
                          (5346314006623587 / 281474976710656) ?g) ! 268)"
    unfolding left by (rule scale [OF sine_near_wrap])
  moreover have "sampling_rate ?g = 44100"
    by (simp add: initial_globals_def)
  moreover have "2 / 10 * 0.5 * sin (2 * pi * (1003 / 10)
      * real_of_int ((837632 + 268) mod 44100) / 44100 + 0 * pi / 180) = 0"
    by simp
  ultimately show ?thesis
    using dac_time_double by blast
qed

text \<open>
  Claim C2, as amended. Under constant numeric parameters and a positive sampling rate,
  let the first block have \<open>N\<close> rows and DAC time 0 and the second \<open>M\<close> rows and a DAC
  time whose double product with the sampling rate is exactly \<open>N\<close>, with \<open>N + M\<close>
  below \<open>2 ^ 53\<close>. Then none of the calls raises, the blocks have \<open>N\<close>, \<open>M\<close> and
  \<open>N + M\<close> rows, and the two blocks one after the other are, sample for sample, the
  block of \<open>N + M\<close> rows rendered at DAC time 0.
\<close>

theorem audio_callback_double_phase_continuity:
  assumes "volume g = PyFloat v" and "frequency_left g = PyFloat fl"
    and "frequency_right g = PyFloat fr" and "phase_left g = PyFloat pl"
    and "phase_right g = PyFloat pr"
    and "0 < sampling_rate g"
    and "length blockN = N" and "length blockM = M" and "length blockNM = N + M"
    and "double_round (d * of_int (sampling_rate g)) = real N"
    and "N + M < 2 ^ 53"
  shows "fst (audio_callback_double blockN 0 g) = None \<and>
    fst (audio_callback_double blockM d g) = None \<and>
    fst (audio_callback_double blockNM 0 g) = None \<and>
    length (snd (audio_callback_double blockN 0 g)) = N \<and>
    length (snd (audio_callback_double blockM d g)) = M \<and>
    length (snd (audio_callback_double blockNM 0 g)) = N + M \<and>
    snd (audio_callback_double blockN 0 g) @ snd (audio_callback_double blockM d g)
    = snd (audio_callback_double blockNM 0 g)"
proof -
  let ?sr = "real_of_int (sampling_rate g)"
  let ?f = "\<lambda>x. (v * 0.5 * sin (2 * pi * fl * x / ?sr + pl * pi / 180),
                  v * 0.5 * sin (2 * pi * fr * x / ?sr + pr * pi / 180))"
  let ?t = "\<lambda>i. real_of_int (int i mod sampling_rate g)"
  note run = audio_callback_double_numeric [OF assms(1-5)]
  have zero: "double_sample_time i 0 ?sr = ?t i" if "i < N + M" for i
    using that assms(11) by (intro exact_sample_time_zero [OF assms(6)]) simp
  have late: "double_sample_time i d ?sr = ?t (N + i)" if "i < M" for i
    using that assms(11) exact_sample_time [OF assms(6,10), of i] by simp
  have one: "snd (audio_callback_double blockNM 0 g) = map (\<lambda>i. ?f (?t i)) [0..<N + M]"
    unfolding run assms(9) using zero by simp
  have first: "snd (audio_callback_double blockN 0 g) = map (\<lambda>i. ?f (?t i)) [0..<N]"
    unfolding run assms(7) using zero by simp
  have second: "snd (audio_callback_double blockM d g) = map (\<lambda>i. ?f (?t (N + i))) [0..<M]"
    unfolding run assms(8) using late by simp
  have "[0..<N + M] = [0..<N] @ [N..<N + M]"
    by (rule upt_add_eq_append) simp
  also have "[N..<N + M] = map (\<lambda>i. i + N) [0..<M]"
    by (simp only: map_add_upt add.commute [of N M])
  finally have "[0..<N + M] = [0..<N] @ map (\<lambda>i. i + N) [0..<M]" .
  then have "map (\<lambda>i. ?f (?t i)) [0..<N + M]
      = map (\<lambda>i. ?f (?t i)) [0..<N] @ map (\<lambda>i. ?f (?t (i + N))) [0..<M]"
    by (simp only: map_append map_map comp_def)
  then have "snd (audio_callback_double blockN 0 g) @ snd (audio_callback_double blockM d g)
      = snd (audio_callback_double blockNM 0 g)"
    unfolding one first second by (simp add: add.commute)
  then show ?thesis
    using assms(7-9) by (simp add: run)
qed

theorem audio_callback_double_phase_continuity_witness:
  "double_round (1 / 4 * real_of_int (sampling_rate initial_globals)) = real 11025 \<and>
   length (snd (audio_callback_double (replicate 11028 (7, 7)) 0 initial_globals)) = 11028 \<and>
   snd (audio_callback_double (replicate 11025 (7, 7)) 0 initial_globals) @
     snd (audio_callback_double (replicate 3 (7, 7)) (1 / 4) initial_globals)
   = snd (audio_callback_double (replicate 11028 (7, 7)) 0 initial_globals)"
proof -
  have "double_round (real_of_int 11025) = real_of_int 11025"
    by (rule double_round_int) simp
  then have product: "double_round (1 / 4 * real_of_int (sampling_rate initial_globals))
      = real 11025"
    by (simp add: initial_globals_def)
  show ?thesis
    using product audio_callback_double_phase_continuity [where g = initial_globals
        and v = "2 / 10" and fl = 100 and fr = 104 and pl = 0 and pr = 0
        and blockN = "replicate 11025 (7, 7)" and N = 11025
        and blockM = "replicate 3 (7, 7)" and M = 3
        and blockNM = "replicate 11028 (7, 7)" and d = "1 / 4"]
    by (simp add: initial_globals_def)
qed

text \<open>
  Claim C2 as first stated, for all block lengths, fails. With \<open>N\<close> = 837632 and
  \<open>M\<close> = 2048 the second block, at the double nearest to \<open>837632 / 44100\<close>, wraps one
  row late: sample 837900 of the single block is 0 in the left channel, while the same
  sample of the two blocks is at least 1/20 (left frequency 100.3).
\<close>

theorem two_blocks_differ_counterexample:
  "double_round (837632 / 44100) = 5346314006623587 / 281474976710656 \<and>
   fst (snd (audio_callback_double (replicate 839680 (0, 0)) 0
               (initial_globals\<lparr>frequency_left := PyFloat (1003 / 10)\<rparr>)) ! 837900) = 0 \<and>
   1 / 20 \<le> fst ((snd (audio_callback_double (replicate 837632 (0, 0)) 0
                      (initial_globals\<lparr>frequency_left := PyFloat (1003 / 10)\<rparr>)) @
                  snd (audio_callback_double (replicate 2048 (0, 0))
                      (5346314006623587 / 281474976710656)
                      (initial_globals\<lparr>frequency_left := PyFloat (1003 / 10)\<rparr>))) ! 837900) \<and>
   snd (audio_callback_double (replicate 837632 (0, 0)) 0
          (initial_globals\<lparr>frequency_left := PyFloat (1003 / 10)\<rparr>)) @
     snd (audio_callback_double (replicate 2048 (0, 0)) (5346314006623587 / 281474976710656)
          (initial_globals\<lparr>frequency_left := PyFloat (1003 / 10)\<rparr>))
   \<noteq> snd (audio_callback_double (replicate 839680 (0, 0)) 0
          (initial_globals\<lparr>frequency_left := PyFloat (1003 / 10)\<rparr>))"
proof -
  let ?g = "initial_globals\<lparr>frequency_left := PyFloat (1003 / 10)\<rparr>"
  let ?d = "5346314006623587 / 281474976710656 :: real"
  let ?f = "\<lambda>d i. (2 / 10 * 0.5 * sin (2 * pi * (1003 / 10) *
                          double_sample_time i d (of_int (sampling_rate ?g))
                          / of_int (sampling_rate ?g) + 0 * pi / 180),
                    2 / 10 * 0.5 * sin (2 * pi * 104 *
                          double_sample_time i d (of_int (sampling_rate ?g))
                          / of_int (sampling_rate ?g) + 0 * pi / 180))"
  have run: "audio_callback_double outdata d ?g = (None, map (?f d) [0..<length outdata])"
    for outdata d
    by (rule audio_callback_double_numeric) (simp_all add: initial_globals_def)
  have sr: "real_of_int (sampling_rate ?g) = 44100"
    by (simp add: initial_globals_def)
  have "double_sample_time 837900 0 (real_of_int 44100) = of_int (int 837900 mod 44100)"
    by (rule exact_sample_time_zero) simp_all
  then have wrap: "double_sample_time 837900 0 44100 = 0"
    by simp
  have "fst (snd (audio_callback_double (replicate 839680 (0, 0)) 0 ?g) ! 837900)
      = fst (?f 0 837900)"
    unfolding run by simp
  also have "\<dots> = 0"
    unfolding sr wrap by simp
  finally have single: "fst (snd (audio_callback_double (replicate 839680 (0, 0)) 0 ?g) ! 837900)
      = 0" .
  have "(snd (audio_callback_double (replicate 837632 (0, 0)) 0 ?g) @
         snd (audio_callback_double (replicate 2048 (0, 0)) ?d ?g)) ! 837900
      = snd (audio_callback_double (replicate 2048 (0, 0)) ?d ?g) ! 268"
    unfolding run by (simp add: nth_append)
  also have "\<dots> = ?f ?d 268"
    unfolding run by simp
  finally have "fst ((snd (audio_callback_double (replicate 837632 (0, 0)) 0 ?g) @
         snd (audio_callback_double (replicate 2048 (0, 0)) ?d ?g)) ! 837900)
      = 2 / 10 * 0.5 * sin (2 * pi * (1003 / 10) *
          double_sample_time 268 ?d (of_int (sampling_rate ?g))
          / of_int (sampling_rate ?g) + 0 * pi / 180)"
    by simp
  also have "\<dots> = 2 / 10 * 0.5
      * sin (2 * pi * (1003 / 10) * (378816115507199 / 8589934592) / 44100)"
    unfolding sr late_sample_time by simp
  finally have two: "fst ((snd (audio_callback_double (replicate 837632 (0, 0)) 0 ?g) @
         snd (audio_callback_double (replicate 2048 (0, 0)) ?d ?g)) ! 837900)
      = 2 / 10 * 0.5
        * sin (2 * pi * (1003 / 10) * (378816115507199 / 8589934592) / 44100)" .
  have scale: "1 / 20 \<le> 2 / 10 * 0.5 * s" if "1 / 2 \<le> s" for s :: real
    using that by simp
  have late: "1 / 20 \<le> fst ((snd (audio_callback_double (replicate 837632 (0, 0)) 0 ?g) @
         snd (audio_callback_double (replicate 2048 (0, 0)) ?d ?g)) ! 837900)"
    unfolding two by (rule scale [OF sine_near_wrap])
  have differ: "snd (audio_callback_double (replicate 837632 (0, 0)) 0 ?g) @
         snd (audio_callback_double (replicate 2048 (0, 0)) ?d ?g)
      \<noteq> snd (audio_callback_double (replicate 839680 (0, 0)) 0 ?g)"
  proof
    assume "snd (audio_callback_double (replicate 837632 (0, 0)) 0 ?g) @
         snd (audio_callback_double (replicate 2048 (0, 0)) ?d ?g)
      = snd (audio_callback_double (replicate 839680 (0, 0)) 0 ?g)"
    with late single show False by simp
  qed
  show ?thesis
    using dac_time_double single late differ by blast
qed

text \<open>
  Claim C3. For valid parameters (frequencies in [1, 20000], phases in [0, 360], volume in
  [0, 1]) and a positive sampling rate, the callback raises nothing and every sample it
  writes, in either channel and at any DAC time, lies
  within \<open>[- volume / 2, volume / 2]\<close>, which is inside \<open>[- 1 / 2, 1 / 2]\<close>.
\<close>

theorem audio_callback_amplitude_bound:
  assumes "valid_params g" and "volume g = PyFloat v" and "0 < sampling_rate g"
    and "i < length outdata"
  shows "fst (audio_callback outdata d g) = None \<and>
    - (v / 2) \<le> fst (snd (audio_callback outdata d g) ! i) \<and>
    fst (snd (audio_callback outdata d g) ! i) \<le> v / 2 \<and>
    - (v / 2) \<le> snd (snd (audio_callback outdata d g) ! i) \<and>
    snd (snd (audio_callback outdata d g) ! i) \<le> v / 2 \<and>
    - (1 / 2) \<le> - (v / 2) \<and> v / 2 \<le> 1 / 2"
proof -
  from assms(1) obtain v' fl fr pl pr where p: "volume g = PyFloat v'"
    "frequency_left g = PyFloat fl" "frequency_right g = PyFloat fr"
    "phase_left g = PyFloat pl" "phase_right g = PyFloat pr" and v': "0 \<le> v'" "v' \<le> 1"
    by (rule valid_params_numeric)
  from p(1) assms(2) have [simp]: "v' = v" by simp
  show ?thesis
    unfolding audio_callback_numeric [OF p]
    using assms(4) v' half_sine_bound [of v] by simp
qed

theorem audio_callback_amplitude_bound_witness:
  "valid_params initial_globals \<and>
   fst (audio_callback [(7, 7)] 0 initial_globals) = None \<and>
   - (1 / 10) \<le> fst (snd (audio_callback [(7, 7)] 0 initial_globals) ! 0) \<and>
   fst (snd (audio_callback [(7, 7)] 0 initial_globals) ! 0) \<le> 1 / 10 \<and>
   - (1 / 10) \<le> snd (snd (audio_callback [(7, 7)] 0 initial_globals) ! 0) \<and>
   snd (snd (audio_callback [(7, 7)] 0 initial_globals) ! 0) \<le> 1 / 10"
proof -
  have valid: "valid_params initial_globals"
    by (simp add: valid_params_def valid_config_def tone_parameters_def in_range_def
        initial_globals_def)
  have vol: "volume initial_globals = PyFloat (2 / 10)"
    and rate: "0 < sampling_rate initial_globals"
    by (simp_all add: initial_globals_def)
  show ?thesis
    using valid audio_callback_amplitude_bound [OF valid vol rate, of 0 "[(7, 7)]" 0]
    by simp
qed

subsection \<open>The parameter store\<close>




text \<open>
  Claim C6, as amended. In a state with numeric parameters and a positive sampling rate, a
  left or right frequency update below 1 or above 20000 (so 0, 0.999 and 20000.1) shows
  the "Invalid Value" error dialog, which is how the program signals an invalid
  parameter, and stores nothing of the rejected input. Its \<open>except\<close> block sets the
  slider to the stored frequency, and the slider's command stores that frequency once
  more, clipped to [1, 20000] and with one decimal: the stored frequency is unchanged
  when it is in range with one decimal already, as 100 and 104 are. An update to the
  bound 1 or to the bound 20000 shows no error dialog and stores the new frequency.
\<close>

theorem update_frequency_boundaries:
  assumes "numeric_params g" and "0 < sampling_rate g"
    and "frequency_left g = PyFloat fl" and "frequency_right g = PyFloat fr"
  shows
    "(x < 1 \<or> 20000 < x \<longrightarrow>
        fst (update_frequency_left from_slider (Some x) g) = None \<and>
        signals_error (snd (snd (update_frequency_left from_slider (Some x) g))) \<and>
        fst (snd (update_frequency_left from_slider (Some x) g))
          = g\<lparr>frequency_left := PyFloat (round_1f (clip 1 20000 fl))\<rparr> \<and>
        (1 \<le> fl \<and> fl \<le> 20000 \<and> round_1f fl = fl \<longrightarrow>
           fst (snd (update_frequency_left from_slider (Some x) g)) = g) \<and>
        fst (update_frequency_right from_slider (Some x) g) = None \<and>
        signals_error (snd (snd (update_frequency_right from_slider (Some x) g))) \<and>
        fst (snd (update_frequency_right from_slider (Some x) g))
          = g\<lparr>frequency_right := PyFloat (round_1f (clip 1 20000 fr))\<rparr> \<and>
        (1 \<le> fr \<and> fr \<le> 20000 \<and> round_1f fr = fr \<longrightarrow>
           fst (snd (update_frequency_right from_slider (Some x) g)) = g)) \<and>
     (x = 1 \<or> x = 20000 \<longrightarrow>
        fst (update_frequency_left from_slider (Some x) g) = None \<and>
        fst (snd (update_frequency_left from_slider (Some x) g))
          = g\<lparr>frequency_left := PyFloat x\<rparr> \<and>
        \<not> signals_error (snd (snd (update_frequency_left from_slider (Some x) g))) \<and>
        fst (update_frequency_right from_slider (Some x) g) = None \<and>
        fst (snd (update_frequency_right from_slider (Some x) g))
          = g\<lparr>frequency_right := PyFloat x\<rparr> \<and>
        \<not> signals_error (snd (snd (update_frequency_right from_slider (Some x) g))))"
proof -
  have same_l: "g\<lparr>frequency_left := PyFloat fl\<rparr> = g"
    using assms(3) [symmetric] by simp
  have same_r: "g\<lparr>frequency_right := PyFloat fr\<rparr> = g"
    using assms(4) [symmetric] by simp
  have reject: "update_frequency_left from_slider (Some x) g = update_frequency_left_except g [] \<and>
      update_frequency_right from_slider (Some x) g = update_frequency_right_except g []"
    if "x < 1 \<or> 20000 < x"
    using that by (auto simp: update_frequency_left_def update_frequency_right_def)
  have exc: "fst (update_frequency_left_except g []) = None"
    "signals_error (snd (snd (update_frequency_left_except g [])))"
    "fst (update_frequency_right_except g []) = None"
    "signals_error (snd (snd (update_frequency_right_except g [])))"
    using assms(3,4)
    by (simp_all add: update_frequency_left_except_def update_frequency_right_except_def
        signals_error_def is_showerror_def Let_def split_beta)
  have exc_state: "fst (snd (update_frequency_left_except g []))
      = g\<lparr>frequency_left := PyFloat (round_1f (clip 1 20000 fl))\<rparr>"
    "fst (snd (update_frequency_right_except g []))
      = g\<lparr>frequency_right := PyFloat (round_1f (clip 1 20000 fr))\<rparr>"
    using assms(3,4)
    by (simp_all add: update_frequency_left_except_state update_frequency_right_except_state)
  have stable: "1 \<le> fl \<and> fl \<le> 20000 \<and> round_1f fl = fl \<Longrightarrow>
      fst (snd (update_frequency_left_except g [])) = g"
    "1 \<le> fr \<and> fr \<le> 20000 \<and> round_1f fr = fr \<Longrightarrow>
      fst (snd (update_frequency_right_except g [])) = g"
    using same_l same_r by (simp_all add: exc_state clip_id)
  have bound: "round_1f (clip 1 20000 x) = x" if "x = 1 \<or> x = 20000"
    using that by (auto simp: clip_def round_1f_def)
  have numl: "numeric_params (g\<lparr>frequency_left := PyFloat x\<rparr>)"
    and numr: "numeric_params (g\<lparr>frequency_right := PyFloat x\<rparr>)"
    using assms(1) by (simp_all add: numeric_params_def)
  have plotl: "fst (plot_waveforms (g\<lparr>frequency_left := PyFloat x\<rparr>)) = None"
    "\<not> signals_error (snd (plot_waveforms (g\<lparr>frequency_left := PyFloat x\<rparr>)))"
    using plot_waveforms_numeric [OF numl] assms(2) by simp_all
  have plotr: "fst (plot_waveforms (g\<lparr>frequency_right := PyFloat x\<rparr>)) = None"
    "\<not> signals_error (snd (plot_waveforms (g\<lparr>frequency_right := PyFloat x\<rparr>)))"
    using plot_waveforms_numeric [OF numr] assms(2) by simp_all
  have quietl: "\<not> signals_error (reported (plot_waveforms (g\<lparr>frequency_left := PyFloat x\<rparr>)))"
    and quietr: "\<not> signals_error (reported (plot_waveforms (g\<lparr>frequency_right := PyFloat x\<rparr>)))"
    using plotl(2) plotr(2) by (simp_all add: reported_quiet)
  have accept_l: "fst (update_frequency_left from_slider (Some x) g) = None \<and>
      fst (snd (update_frequency_left from_slider (Some x) g))
        = g\<lparr>frequency_left := PyFloat x\<rparr> \<and>
      \<not> signals_error (snd (snd (update_frequency_left from_slider (Some x) g)))"
    if "x = 1 \<or> x = 20000"
  proof -
    have r: "1 \<le> x \<and> x \<le> 20000" using that by auto
    show ?thesis
      unfolding update_frequency_left_def
      using plotl quietl bound [OF that]
      by (cases "plot_waveforms (g\<lparr>frequency_left := PyFloat x\<rparr>)")
        (simp add: r frequency_left_slider_set_def Let_def signals_error_def is_showerror_def)
  qed
  have accept_r: "fst (update_frequency_right from_slider (Some x) g) = None \<and>
      fst (snd (update_frequency_right from_slider (Some x) g))
        = g\<lparr>frequency_right := PyFloat x\<rparr> \<and>
      \<not> signals_error (snd (snd (update_frequency_right from_slider (Some x) g)))"
    if "x = 1 \<or> x = 20000"
  proof -
    have r: "1 \<le> x \<and> x \<le> 20000" using that by auto
    show ?thesis
      unfolding update_frequency_right_def
      using plotr quietr bound [OF that]
      by (cases "plot_waveforms (g\<lparr>frequency_right := PyFloat x\<rparr>)")
        (simp add: r frequency_right_slider_set_def Let_def signals_error_def is_showerror_def)
  qed
  show ?thesis
    using reject exc exc_state stable accept_l accept_r by presburger
qed

theorem update_frequency_boundaries_witness:
  "fst (snd (update_frequency_left False (Some 0) initial_globals)) = initial_globals \<and>
   signals_error (snd (snd (update_frequency_left False (Some 0) initial_globals))) \<and>
   fst (snd (update_frequency_right False (Some (999 / 1000)) initial_globals))
     = initial_globals \<and>
   signals_error (snd (snd (update_frequency_right False (Some (999 / 1000)) initial_globals))) \<and>
   fst (snd (update_frequency_left True (Some (200001 / 10)) initial_globals))
     = initial_globals \<and>
   signals_error (snd (snd (update_frequency_left True (Some (200001 / 10)) initial_globals))) \<and>
   fst (snd (update_frequency_left False (Some 1) initial_globals))
     = initial_globals\<lparr>frequency_left := PyFloat 1\<rparr> \<and>
   \<not> signals_error (snd (snd (update_frequency_left False (Some 1) initial_globals))) \<and>
   fst (snd (update_frequency_right False (Some 20000) initial_globals))
     = initial_globals\<lparr>frequency_right := PyFloat 20000\<rparr> \<and>
   \<not> signals_error (snd (snd (update_frequency_right False (Some 20000) initial_globals)))"
proof -
  have n: "numeric_params initial_globals"
    by (simp add: numeric_params_def initial_globals_def)
  have r: "0 < sampling_rate initial_globals"
    by (simp add: initial_globals_def)
  have fl: "frequency_left initial_globals = PyFloat 100"
    and fr: "frequency_right initial_globals = PyFloat 104"
    by (simp_all add: initial_globals_def)
  have one_decimal: "round_1f 100 = 100" "round_1f 104 = 104"
    by (simp_all add: round_1f_def)
  note t = update_frequency_boundaries [OF n r fl fr]
  show ?thesis
    using one_decimal t [where x = 0 and from_slider = False]
      t [where x = "999 / 1000" and from_slider = False]
      t [where x = "200001 / 10" and from_slider = True]
      t [where x = 1 and from_slider = False]
      t [where x = 20000 and from_slider = False]
    by (simp add: clip_def initial_globals_def)
qed

text \<open>
  Claim C6 as first stated, that a rejected update leaves the stored frequency at its
  previous value whatever that value is, fails: with a stored right frequency of 440.26,
  the rejected update 0 leaves 440.3. Such a value is stored when a saved row is loaded
  whose left frequency is NULL, since \<open>update_ui_values\<close> then raises before it
  reaches the right slider.
\<close>

theorem update_frequency_rejected_counterexample:
  "frequency_right (initial_globals\<lparr>frequency_right := PyFloat (44026 / 100)\<rparr>)
     = PyFloat (44026 / 100) \<and>
   signals_error (snd (snd (update_frequency_right False (Some 0)
     (initial_globals\<lparr>frequency_right := PyFloat (44026 / 100)\<rparr>)))) \<and>
   frequency_right (fst (snd (update_frequency_right False (Some 0)
     (initial_globals\<lparr>frequency_right := PyFloat (44026 / 100)\<rparr>)))) = PyFloat (4403 / 10) \<and>
   frequency_right (fst (snd (load_selected_config
     (Some (Some (PyNone, PyFloat (44026 / 100), PyFloat 0, PyFloat 0, PyFloat (2 / 10))))
     initial_globals))) = PyFloat (44026 / 100) \<and>
   frequency_right (fst (snd (update_frequency_right False (Some 0)
     (fst (snd (load_selected_config
        (Some (Some (PyNone, PyFloat (44026 / 100), PyFloat 0, PyFloat 0, PyFloat (2 / 10))))
        initial_globals)))))) = PyFloat (4403 / 10)"
proof -
  have rounded: "round_1f (clip 1 20000 (44026 / 100)) = 4403 / 10"
    by (simp add: clip_def round_1f_def)
  have rejected: "update_frequency_right False (Some 0) h = update_frequency_right_except h []"
    for h
    by (simp add: update_frequency_right_def)
  have stored: "frequency_right (fst (snd (update_frequency_right False (Some 0) h)))
      = PyFloat (4403 / 10)"
    if "frequency_right h = PyFloat (44026 / 100)" for h
    using that rounded by (simp add: rejected update_frequency_right_except_state)
  have shown: "signals_error (snd (snd (update_frequency_right False (Some 0) h)))"
    if "frequency_right h = PyFloat (44026 / 100)" for h
    using that
    by (simp add: rejected update_frequency_right_except_def Let_def split_beta
        signals_error_def is_showerror_def)
  let ?g = "initial_globals\<lparr>frequency_right := PyFloat (44026 / 100)\<rparr>"
  let ?l = "fst (snd (load_selected_config
     (Some (Some (PyNone, PyFloat (44026 / 100), PyFloat 0, PyFloat 0, PyFloat (2 / 10))))
     initial_globals))"
  have g: "frequency_right ?g = PyFloat (44026 / 100)"
    by simp
  have l: "frequency_right ?l = PyFloat (44026 / 100)"
    by (simp add: load_selected_config_state update_ui_values_steps)
  show ?thesis
    using g l stored [OF g] stored [OF l] shown [OF g] by simp
qed



subsection \<open>Failures inside the callback\<close>

text \<open>
  Claim C8, as amended. The callback has no error handling. With five numeric parameters
  it raises nothing. When a parameter is \<open>None\<close> the TypeError leaves the callback, and
  no silence is written: the right column keeps its previous content, and the whole buffer
  does when the \<open>None\<close> is the volume, the left frequency or a phase.
\<close>

theorem audio_callback_no_error_handling:
  "(numeric_params g \<longrightarrow> fst (audio_callback outdata d g) = None) \<and>
   (\<not> numeric_params g \<longrightarrow>
      fst (audio_callback outdata d g) = Some TypeError \<and>
      map snd (snd (audio_callback outdata d g)) = map snd outdata) \<and>
   (volume g = PyNone \<or> frequency_left g = PyNone \<or> phase_left g = PyNone \<or>
    phase_right g = PyNone \<longrightarrow>
      snd (audio_callback outdata d g) = outdata)"
proof -
  have "fst (audio_callback outdata d g) = None" if "numeric_params g"
    using that by (elim numeric_params_values) (simp add: audio_callback_numeric)
  then show ?thesis
    using audio_callback_not_numeric [of g outdata d] audio_callback_untouched [of g outdata d]
    by blast
qed

theorem audio_callback_no_error_handling_witness:
  "numeric_params initial_globals \<and>
   fst (audio_callback [(1, 1)] 0 initial_globals) = None \<and>
   \<not> numeric_params (initial_globals\<lparr>frequency_right := PyNone\<rparr>) \<and>
   fst (audio_callback [(1, 1)] 0 (initial_globals\<lparr>frequency_right := PyNone\<rparr>))
     = Some TypeError \<and>
   map snd (snd (audio_callback [(1, 1)] 0 (initial_globals\<lparr>frequency_right := PyNone\<rparr>)))
     = [1] \<and>
   snd (audio_callback [(1, 1)] 0 (initial_globals\<lparr>volume := PyNone\<rparr>)) = [(1, 1)]"
  using audio_callback_no_error_handling [of initial_globals "[(1, 1)]" 0]
    audio_callback_no_error_handling [of "initial_globals\<lparr>frequency_right := PyNone\<rparr>"
      "[(1, 1)]" 0]
    audio_callback_no_error_handling [of "initial_globals\<lparr>volume := PyNone\<rparr>" "[(1, 1)]" 0]
  by (simp add: numeric_params_def initial_globals_def)

text \<open>
  Claim C8 as first stated, that a failure inside the callback never propagates and
  yields a block of zeros, fails: loading a row whose volume is NULL makes the volume
  \<open>None\<close> (\<open>update_ui_values\<close> raises, the assignment stays), and the next callback
  raises TypeError to its caller and leaves the buffer as it found it, not zeroed.
\<close>

theorem audio_callback_fault_counterexample:
  "fst (load_selected_config
          (Some (Some (PyFloat 100, PyFloat 104, PyFloat 0, PyFloat 0, PyNone)))
          initial_globals) = Some TypeError \<and>
   fst (audio_callback [(1, 1), (1, 1)] 0
         (fst (snd (load_selected_config
            (Some (Some (PyFloat 100, PyFloat 104, PyFloat 0, PyFloat 0, PyNone)))
            initial_globals)))) = Some TypeError \<and>
   snd (audio_callback [(1, 1), (1, 1)] 0
         (fst (snd (load_selected_config
            (Some (Some (PyFloat 100, PyFloat 104, PyFloat 0, PyFloat 0, PyNone)))
            initial_globals)))) = [(1, 1), (1, 1)] \<and>
   snd (audio_callback [(1, 1), (1, 1)] 0
         (fst (snd (load_selected_config
            (Some (Some (PyFloat 100, PyFloat 104, PyFloat 0, PyFloat 0, PyNone)))
            initial_globals)))) \<noteq> [(0, 0), (0, 0)]"
proof -
  let ?l = "load_selected_config
      (Some (Some (PyFloat 100, PyFloat 104, PyFloat 0, PyFloat 0, PyNone))) initial_globals"
  have raised: "fst ?l = Some TypeError"
    by (simp add: load_selected_config_error update_ui_values_error_none numeric_params_def)
  have vol: "volume (fst (snd ?l)) = PyNone"
    by (simp add: load_selected_config_state update_ui_values_none)
  then have "\<not> numeric_params (fst (snd ?l))"
    by (simp add: numeric_params_def)
  then have "fst (audio_callback [(1, 1), (1, 1)] 0 (fst (snd ?l))) = Some TypeError"
    by (rule audio_callback_not_numeric)
  moreover have "snd (audio_callback [(1, 1), (1, 1)] 0 (fst (snd ?l))) = [(1, 1), (1, 1)]"
    using vol by (intro audio_callback_untouched) simp
  ultimately show ?thesis
    using raised by simp
qed

subsection \<open>The plot and the callback\<close>

text \<open>
  Claim C9, as amended. The plot covers 0.05 seconds and leaves the volume out. For numeric
  parameters and a positive sampling rate that is a multiple of 20 (44100 is), the plot
  has \<open>sampling_rate div 20\<close> samples, its time at index \<open>i\<close> is \<open>i / sampling_rate\<close>,
  its waves are \<open>0.5 * sin (2 pi * frequency * t + phase * pi / 180)\<close>, and the callback
  at DAC time 0 writes at every such index the volume times the plotted pair.
\<close>

theorem plot_is_callback_without_volume:
  assumes "volume g = PyFloat v" and "frequency_left g = PyFloat fl"
    and "frequency_right g = PyFloat fr" and "phase_left g = PyFloat pl"
    and "phase_right g = PyFloat pr"
    and "0 < sampling_rate g" and "sampling_rate g mod 20 = 0"
    and "length outdata = nat (sampling_rate g div 20)" and "i < length outdata"
  shows "case plot_waveforms_data g of
      Inl e \<Rightarrow> False
    | Inr (t, wave1, wave2) \<Rightarrow>
        length t = length outdata \<and> length wave1 = length outdata \<and>
        length wave2 = length outdata \<and>
        t ! i = real i / of_int (sampling_rate g) \<and>
        wave1 ! i = 0.5 * sin (2 * pi * fl * (t ! i) + pl * pi / 180) \<and>
        wave2 ! i = 0.5 * sin (2 * pi * fr * (t ! i) + pr * pi / 180) \<and>
        snd (audio_callback outdata 0 g) ! i = (v * wave1 ! i, v * wave2 ! i)"
proof -
  have "i < nat (sampling_rate g)"
    using assms(6,8,9) by simp
  from py_mod_small [OF this] have small:
    "py_mod (real i + 0 * of_int (sampling_rate g)) (of_int (sampling_rate g)) = real i" .
  show ?thesis
    unfolding plot_waveforms_data_numeric_eq [OF assms(2-7)]
      audio_callback_numeric [OF assms(1-5)]
    using assms(8,9) small by simp
qed

theorem plot_is_callback_without_volume_witness:
  "(case plot_waveforms_data initial_globals of
      Inl e \<Rightarrow> False
    | Inr (t, wave1, wave2) \<Rightarrow>
        length wave1 = 2205 \<and>
        snd (audio_callback (replicate 2205 (0, 0)) 0 initial_globals) ! 7
          = (2 / 10 * wave1 ! 7, 2 / 10 * wave2 ! 7))"
  using plot_is_callback_without_volume [where g = initial_globals and v = "2 / 10"
      and fl = 100 and fr = 104 and pl = 0 and pr = 0 and outdata = "replicate 2205 (0, 0)"
      and i = 7]
  by (auto simp: initial_globals_def split: sum.splits)

text \<open>
  Claim C9 as first stated, that the plot and the callback produce the same values,
  fails: with the initial parameters and a left phase of 90 degrees, the plotted left wave
  is 1/2 at index 0 while the callback writes 1/10 (the volume is 0.2).
\<close>

theorem plot_omits_volume_counterexample:
  "(case plot_waveforms_data (initial_globals\<lparr>phase_left := PyFloat 90\<rparr>) of
      Inl e \<Rightarrow> False
    | Inr (t, wave1, wave2) \<Rightarrow>
        wave1 ! 0 = 1 / 2 \<and>
        wave1 ! 0 \<noteq>
          fst (snd (audio_callback [(0, 0)] 0 (initial_globals\<lparr>phase_left := PyFloat 90\<rparr>)) ! 0)) \<and>
   fst (snd (audio_callback [(0, 0)] 0 (initial_globals\<lparr>phase_left := PyFloat 90\<rparr>)) ! 0)
     = 1 / 10"
proof -
  let ?g = "initial_globals\<lparr>phase_left := PyFloat 90\<rparr>"
  have "plot_waveforms_data ?g =
     Inr (map (\<lambda>i. real i / of_int (sampling_rate ?g)) [0..<nat (sampling_rate ?g div 20)],
          map (\<lambda>i. 0.5 * sin (2 * pi * 100 * (real i / of_int (sampling_rate ?g)) + 90 * pi / 180))
            [0..<nat (sampling_rate ?g div 20)],
          map (\<lambda>i. 0.5 * sin (2 * pi * 104 * (real i / of_int (sampling_rate ?g)) + 0 * pi / 180))
            [0..<nat (sampling_rate ?g div 20)])"
    by (rule plot_waveforms_data_numeric_eq) (simp_all add: initial_globals_def)
  then have plot: "case plot_waveforms_data ?g of
      Inl e \<Rightarrow> False
    | Inr (t, wave1, wave2) \<Rightarrow> wave1 ! 0 = 1 / 2 \<and> wave1 ! 0 \<noteq> 1 / 10"
    by (simp add: initial_globals_def)
  have "audio_callback [(0, 0)] 0 ?g =
     (None, map (\<lambda>i. (2 / 10 * 0.5 * sin (2 * pi * 100 *
                          py_mod (real i + 0 * of_int (sampling_rate ?g)) (of_int (sampling_rate ?g))
                          / of_int (sampling_rate ?g) + 90 * pi / 180),
                      2 / 10 * 0.5 * sin (2 * pi * 104 *
                          py_mod (real i + 0 * of_int (sampling_rate ?g)) (of_int (sampling_rate ?g))
                          / of_int (sampling_rate ?g) + 0 * pi / 180)))
                [0..<length [(0::real, 0::real)]])"
    by (rule audio_callback_numeric) (simp_all add: initial_globals_def)
  then have call: "fst (snd (audio_callback [(0, 0)] 0 ?g) ! 0) = 1 / 10"
    by (simp add: py_mod_def)
  show ?thesis
    using plot by (simp only: call)
qed

subsection \<open>Starting and stopping the stream\<close>

text \<open>
  Claim C10. From any state and whatever the device answers, \<open>start_stream\<close> and
  \<open>stop_stream\<close> leave the five tone parameters unchanged: the resulting state differs
  from the previous one in \<open>stream\<close> at most, and the only widget calls are button
  configurations. Parameters therefore persist across stop and start cycles.
\<close>

theorem start_stop_keep_parameters:
  "tone_parameters (fst (snd (start_stream open_ok start_ok g))) = tone_parameters g \<and>
   fst (snd (start_stream open_ok start_ok g))
     = g\<lparr>stream := stream (fst (snd (start_stream open_ok start_ok g)))\<rparr> \<and>
   list_all is_button_config (snd (snd (start_stream open_ok start_ok g))) \<and>
   tone_parameters (fst (snd (stop_stream stop_ok g))) = tone_parameters g \<and>
   fst (snd (stop_stream stop_ok g))
     = g\<lparr>stream := stream (fst (snd (stop_stream stop_ok g)))\<rparr> \<and>
   list_all is_button_config (snd (snd (stop_stream stop_ok g)))"
  by (simp add: start_stream_def stop_stream_def tone_parameters_def is_button_config_def)

theorem start_stop_keep_parameters_witness:
  "tone_parameters
     (fst (snd (stop_stream True (fst (snd (start_stream True True initial_globals))))))
   = tone_parameters initial_globals"
  using start_stop_keep_parameters [of True True initial_globals True]
    start_stop_keep_parameters [of True True "fst (snd (start_stream True True initial_globals))"
      True]
  by simp

end
